theory Spec2Isabelle
  imports Main
begin

section \<open>The values the facilitator computes with\<close>

text \<open>
  \<^verbatim>\<open>SimpleFacilitator\<close> (src/src/facilitator.ts) reads its payment from
  \<^verbatim>\<open>JSON.parse\<close>, so what it handles at run time is any JSON value, whatever the
  TypeScript annotation \<^verbatim>\<open>PaymentPayload\<close> says. The model keeps that: a decoded
  header is a \<open>jsval\<close>, and a field that is absent reads as \<open>JUndefined\<close>.
  Numbers are the integers (a JSON number with a fractional part is outside the model);
  strings are lists of characters.
\<close>

datatype jsval =
    JUndefined
  | JNull
  | JBool bool
  | JNum int
  | JStr string
  | JArr "jsval list"
  | JObj "(string \<times> jsval) list"

datatype js_error = TypeError string | SyntaxError string

fun message :: "js_error \<Rightarrow> string" where
  "message (TypeError m) = m"
| "message (SyntaxError m) = m"

text \<open>Sequencing of steps that may throw: the first thrown error ends the block.\<close>

definition and_then :: "js_error + 'a \<Rightarrow> ('a \<Rightarrow> js_error + 'b) \<Rightarrow> js_error + 'b" where
  "and_then r k = (case r of Inl e \<Rightarrow> Inl e | Inr x \<Rightarrow> k x)"

text \<open>
  An object built by \<^verbatim>\<open>JSON.parse\<close> keeps the last value of a repeated key. Reading a
  property of \<^verbatim>\<open>undefined\<close> or \<^verbatim>\<open>null\<close> throws a TypeError (the text is V8's); on
  any other value a property that is not there reads as \<^verbatim>\<open>undefined\<close>. The property
  names this program reads from parsed values (x402Version, scheme, network, payload,
  from, to, value, validAfter, validBefore, nonce, signature) are not inherited from any
  prototype, so own properties decide.
\<close>

definition lookup :: "(string \<times> jsval) list \<Rightarrow> string \<Rightarrow> jsval" where
  "lookup kvs f = (case map_of (rev kvs) f of None \<Rightarrow> JUndefined | Some v \<Rightarrow> v)"

definition quoted :: "string \<Rightarrow> string" where
  "quoted f = [CHR 0x27] @ f @ [CHR 0x27]"

fun get_prop :: "jsval \<Rightarrow> string \<Rightarrow> js_error + jsval" where
  "get_prop JUndefined f =
     Inl (TypeError (''Cannot read properties of undefined (reading '' @ quoted f @ '')''))"
| "get_prop JNull f =
     Inl (TypeError (''Cannot read properties of null (reading '' @ quoted f @ '')''))"
| "get_prop (JObj kvs) f = Inr (lookup kvs f)"
| "get_prop (JBool b) f = Inr JUndefined"
| "get_prop (JNum n) f = Inr JUndefined"
| "get_prop (JStr s) f = Inr JUndefined"
| "get_prop (JArr vs) f = Inr JUndefined"

text \<open>A read from a value that an earlier read has already shown not to be
  \<^verbatim>\<open>undefined\<close> or \<^verbatim>\<open>null\<close>: it cannot throw.\<close>

definition read :: "jsval \<Rightarrow> string \<Rightarrow> jsval" where
  "read v f = (case get_prop v f of Inl e \<Rightarrow> JUndefined | Inr x \<Rightarrow> x)"

text \<open>
  \<^verbatim>\<open>a || b\<close> on an optional string: the default replaces \<^verbatim>\<open>undefined\<close> and the
  empty string, both falsy.
\<close>

definition or_default :: "string option \<Rightarrow> string \<Rightarrow> string" where
  "or_default v d = (case v of None \<Rightarrow> d | Some s \<Rightarrow> if s = [] then d else s)"

text \<open>
  \<^verbatim>\<open>Set.prototype.has\<close> and \<^verbatim>\<open>add\<close> compare with SameValueZero: primitives by value,
  an array or object only with itself. Every \<^verbatim>\<open>JSON.parse\<close> call builds its arrays and
  objects afresh, so a parsed array or object is never found in the set, and adding one
  always adds an element. The set is kept in insertion order.
\<close>

fun is_primitive :: "jsval \<Rightarrow> bool" where
  "is_primitive (JArr vs) = False"
| "is_primitive (JObj kvs) = False"
| "is_primitive v = True"

definition set_has :: "jsval list \<Rightarrow> jsval \<Rightarrow> bool" where
  "set_has s v = (is_primitive v \<and> v \<in> set s)"

definition set_add :: "jsval list \<Rightarrow> jsval \<Rightarrow> jsval list" where
  "set_add s v = (if set_has s v then s else s @ [v])"

section \<open>Requirements, the signing domain and the runtime\<close>

text \<open>
  Modelled from the spec: src/types.ts, which declares \<^verbatim>\<open>PaymentRequirement\<close>, is not
  among the sources. The record has the fields the spec's data model lists (section 3);
  the facilitator reads scheme, network, maxAmountRequired, payTo, asset and the two
  strings of \<^verbatim>\<open>extra\<close>. The requirement is built by the server, not parsed from the
  header, so its fields have their declared types.
\<close>

record extra_info =
  extra_name :: "string option"
  extra_version :: "string option"

record payment_requirement =
  scheme :: string
  network :: string
  maxAmountRequired :: string
  payTo :: string
  asset :: string
  maxTimeoutSeconds :: int
  extra :: "extra_info option"
  req_nonce :: "string option"

text \<open>
  The chain id of the signing domain. \<^verbatim>\<open>chainIds[network] || 1\<close> reads a property of an
  object literal, so besides the four own keys it finds what every object inherits from
  \<^verbatim>\<open>Object.prototype\<close>: for those names the read yields a function (or, for
  \<^verbatim>\<open>__proto__\<close>, the prototype object), which is truthy and is returned as it is.
\<close>

datatype chain_id = ChainNumber nat | InheritedMember string

definition chainIds :: "(string \<times> nat) list" where
  "chainIds =
     [(''base-sepolia'', 84532), (''base'', 8453), (''ethereum'', 1), (''sepolia'', 11155111)]"

definition object_prototype_members :: "string list" where
  "object_prototype_members =
     [''constructor'', ''__proto__'', ''hasOwnProperty'', ''isPrototypeOf'',
      ''propertyIsEnumerable'', ''toLocaleString'', ''toString'', ''valueOf'',
      ''__defineGetter__'', ''__defineSetter__'', ''__lookupGetter__'', ''__lookupSetter__'']"

definition getChainId :: "string \<Rightarrow> chain_id" where
  "getChainId nw =
     (case map_of chainIds nw of
        Some n \<Rightarrow> if n = 0 then ChainNumber 1 else ChainNumber n
      | None \<Rightarrow> if nw \<in> set object_prototype_members then InheritedMember nw else ChainNumber 1)"

record domain =
  domain_name :: string
  domain_version :: string
  chainId :: chain_id
  verifyingContract :: string

record typed_message =
  msg_from :: jsval
  msg_to :: jsval
  msg_value :: jsval
  msg_validAfter :: jsval
  msg_validBefore :: jsval
  msg_nonce :: jsval

definition transfer_types :: "(string \<times> string) list" where
  "transfer_types =
     [(''from'', ''address''), (''to'', ''address''), (''value'', ''uint256''),
      (''validAfter'', ''uint256''), (''validBefore'', ''uint256''), (''nonce'', ''bytes32'')]"

text \<open>
  What the facilitator calls and does not define: decoding a header
  (\<^verbatim>\<open>Buffer.from(h, 'base64').toString('utf-8')\<close>, which never throws, followed by
  \<^verbatim>\<open>JSON.parse\<close>, which throws a SyntaxError); \<^verbatim>\<open>ethers.verifyTypedData\<close> (the
  recovered address, or a throw); \<^verbatim>\<open>String.prototype.toLowerCase\<close>, which follows the
  Unicode case mappings; and the engine's \<^verbatim>\<open><\<close> between a string, array or object and a
  number, which goes through ToPrimitive and StringToNumber and throws a TypeError when an
  object cannot be converted (\<^verbatim>\<open>{"toString": 1} < 5\<close>).
\<close>

record runtime =
  decode_header :: "string \<Rightarrow> js_error + jsval"
  verifyTypedData ::
    "domain \<Rightarrow> (string \<times> string) list \<Rightarrow> typed_message \<Rightarrow> jsval \<Rightarrow> js_error + string"
  lower_case :: "string \<Rightarrow> string"
  coerced_less :: "jsval \<Rightarrow> int \<Rightarrow> js_error + bool"

text \<open>
  \<^verbatim>\<open>x.toLowerCase()\<close>. Called on anything but a string it throws: \<^verbatim>\<open>x.toLowerCase\<close> is
  a failed property read on \<^verbatim>\<open>undefined\<close> and \<^verbatim>\<open>null\<close>, and is not a function on the
  other values. The second argument is the source text of the receiver, which V8 prints in
  the message.
\<close>

fun toLowerCase :: "runtime \<Rightarrow> string \<Rightarrow> jsval \<Rightarrow> js_error + string" where
  "toLowerCase rt src (JStr s) = Inr (lower_case rt s)"
| "toLowerCase rt src JUndefined =
     Inl (TypeError ''Cannot read properties of undefined (reading 'toLowerCase')'')"
| "toLowerCase rt src JNull =
     Inl (TypeError ''Cannot read properties of null (reading 'toLowerCase')'')"
| "toLowerCase rt src v = Inl (TypeError (src @ ''.toLowerCase is not a function''))"

text \<open>\<^verbatim>\<open>v < n\<close> for a number \<open>n\<close>: ToNumber of \<^verbatim>\<open>undefined\<close> is NaN, which compares false;
  \<^verbatim>\<open>null\<close> is 0, \<^verbatim>\<open>true\<close> is 1, \<^verbatim>\<open>false\<close> is 0. None of these throws; a string, an
  array or an object is the engine's to convert, and that may throw.\<close>

fun less_than :: "runtime \<Rightarrow> jsval \<Rightarrow> int \<Rightarrow> js_error + bool" where
  "less_than rt JUndefined n = Inr False"
| "less_than rt JNull n = Inr (0 < n)"
| "less_than rt (JBool b) n = Inr ((if b then 1 else 0) < n)"
| "less_than rt (JNum k) n = Inr (k < n)"
| "less_than rt v n = coerced_less rt v n"

section \<open>The facilitator\<close>

text \<open>
  The state is the private \<^verbatim>\<open>usedNonces\<close> set, and beside it what the calls print
  (\<^verbatim>\<open>console.error\<close>, \<^verbatim>\<open>console.log\<close>): a line is its fixed text, the value
  interpolated or appended, and the fixed text after it.
\<close>

datatype console_entry =
    ConsoleError string js_error
  | ConsoleLog string jsval string

record facilitator =
  usedNonces :: "jsval list"
  console :: "console_entry list"

definition print :: "console_entry \<Rightarrow> facilitator \<Rightarrow> facilitator" where
  "print l st = st\<lparr>console := console st @ [l]\<rparr>"

record verify_response =
  isValid :: bool
  invalidReason :: "string option"

definition invalid :: "string \<Rightarrow> verify_response" where
  "invalid r = \<lparr>isValid = False, invalidReason = Some r\<rparr>"

definition valid :: verify_response where
  "valid = \<lparr>isValid = True, invalidReason = None\<rparr>"

record settle_response =
  success :: bool
  txHash :: "string option"
  networkId :: "jsval option"
  error :: "string option"

definition failure :: "string \<Rightarrow> settle_response" where
  "failure e = \<lparr>success = False, txHash = None, networkId = None, error = Some e\<rparr>"

subsection \<open>verifyEIP3009Signature (lines 186-234)\<close>

definition build_domain :: "payment_requirement \<Rightarrow> domain" where
  "build_domain req =
     \<lparr>domain_name =
        or_default (case extra req of None \<Rightarrow> None | Some x \<Rightarrow> extra_name x) ''USD Coin'',
      domain_version =
        or_default (case extra req of None \<Rightarrow> None | Some x \<Rightarrow> extra_version x) ''2'',
      chainId = getChainId (network req),
      verifyingContract = asset req\<rparr>"

definition build_message :: "jsval \<Rightarrow> js_error + typed_message" where
  "build_message payload =
     and_then (get_prop payload ''from'') (\<lambda>f.
     and_then (get_prop payload ''to'') (\<lambda>t.
     and_then (get_prop payload ''value'') (\<lambda>v.
     and_then (get_prop payload ''validAfter'') (\<lambda>va.
     and_then (get_prop payload ''validBefore'') (\<lambda>vb.
     and_then (get_prop payload ''nonce'') (\<lambda>n.
       Inr \<lparr>msg_from = f, msg_to = t, msg_value = v, msg_validAfter = va,
            msg_validBefore = vb, msg_nonce = n\<rparr>))))))"

text \<open>The body of the \<^verbatim>\<open>try\<close> block: the domain, the message, the recovery, and the
  comparison of the recovered address with \<^verbatim>\<open>payload.from\<close>, both in lower case.\<close>

definition signature_try :: "runtime \<Rightarrow> jsval \<Rightarrow> payment_requirement \<Rightarrow> js_error + bool" where
  "signature_try rt payload req =
     and_then (build_message payload) (\<lambda>m.
     and_then (get_prop payload ''signature'') (\<lambda>sg.
     and_then (verifyTypedData rt (build_domain req) transfer_types m sg) (\<lambda>recoveredAddress.
     and_then (get_prop payload ''from'') (\<lambda>f.
     and_then (toLowerCase rt ''payload.from'' f) (\<lambda>fl.
       Inr (lower_case rt recoveredAddress = fl))))))"

definition verifyEIP3009Signature ::
  "runtime \<Rightarrow> facilitator \<Rightarrow> jsval \<Rightarrow> payment_requirement \<Rightarrow> bool \<times> facilitator" where
  "verifyEIP3009Signature rt st payload req =
     (case signature_try rt payload req of
        Inr b \<Rightarrow> (b, st)
      | Inl e \<Rightarrow> (False, print (ConsoleError ''Signature verification error:'' e) st))"

subsection \<open>verify (lines 35-130)\<close>

text \<open>
  \<^verbatim>\<open>verify\<close> is an async function with one \<^verbatim>\<open>await\<close>, on the signature check (line
  101). Everything before it runs in one go when \<^verbatim>\<open>verify\<close> is called: either the
  function has returned by then, or it is suspended with the signature's verdict in hand
  (\<^verbatim>\<open>verifyEIP3009Signature\<close> has no \<^verbatim>\<open>await\<close> of its own, so its body has run).
\<close>

datatype verify_state = Finished verify_response | AwaitingSignature bool

text \<open>
  The \<^verbatim>\<open>try\<close> block up to the \<^verbatim>\<open>await\<close>, check by check in the order of the source.
  Its inputs beside the header and the requirement are the state and the reading of
  \<^verbatim>\<open>Date.now()\<close> in milliseconds. \<^verbatim>\<open>!==\<close> against a number or a string is equality of
  values: an array or object differs from every primitive.
\<close>

definition verify_exact ::
  "runtime \<Rightarrow> facilitator \<Rightarrow> int \<Rightarrow> jsval \<Rightarrow> payment_requirement \<Rightarrow>
   js_error + verify_state \<times> facilitator" where
  "verify_exact rt st date_now eip3009Payload req =
     and_then (get_prop eip3009Payload ''nonce'') (\<lambda>n.
     if set_has (usedNonces st) n then Inr (Finished (invalid ''Nonce already used''), st)
     else and_then (get_prop eip3009Payload ''value'') (\<lambda>v.
     if v \<noteq> JStr (maxAmountRequired req)
     then Inr (Finished (invalid ''Payment amount mismatch''), st)
     else and_then (get_prop eip3009Payload ''to'') (\<lambda>t.
     and_then (toLowerCase rt ''eip3009Payload.to'' t) (\<lambda>tl.
     if tl \<noteq> lower_case rt (payTo req)
     then Inr (Finished (invalid ''Payment recipient mismatch''), st)
     else and_then (get_prop eip3009Payload ''validBefore'') (\<lambda>vb.
     and_then (less_than rt vb (date_now div 1000)) (\<lambda>expired.
     if expired then Inr (Finished (invalid ''Payment expired''), st)
     else (case verifyEIP3009Signature rt st eip3009Payload req of
             (isValidSignature, st') \<Rightarrow> Inr (AwaitingSignature isValidSignature, st'))))))))"

definition verify_try ::
  "runtime \<Rightarrow> facilitator \<Rightarrow> int \<Rightarrow> string \<Rightarrow> payment_requirement \<Rightarrow>
   js_error + verify_state \<times> facilitator" where
  "verify_try rt st date_now paymentHeader req =
     and_then (decode_header rt paymentHeader) (\<lambda>paymentPayload.
     and_then (get_prop paymentPayload ''x402Version'') (\<lambda>ver.
     if ver \<noteq> JNum 1 then Inr (Finished (invalid ''Unsupported x402 version''), st)
     else and_then (get_prop paymentPayload ''scheme'') (\<lambda>sch.
     and_then (get_prop paymentPayload ''network'') (\<lambda>nw.
     if sch \<noteq> JStr (scheme req) \<or> nw \<noteq> JStr (network req)
     then Inr (Finished (invalid ''Scheme or network mismatch''), st)
     else if sch = JStr ''exact''
     then and_then (get_prop paymentPayload ''payload'') (\<lambda>eip3009Payload.
            verify_exact rt st date_now eip3009Payload req)
     else Inr (Finished (invalid ''Unsupported payment scheme''), st)))))"

text \<open>The call of \<^verbatim>\<open>verify\<close> up to its suspension or return, the \<^verbatim>\<open>catch\<close> included.\<close>

definition verify_begin ::
  "runtime \<Rightarrow> facilitator \<Rightarrow> int \<Rightarrow> string \<Rightarrow> payment_requirement \<Rightarrow>
   verify_state \<times> facilitator" where
  "verify_begin rt st date_now paymentHeader req =
     (case verify_try rt st date_now paymentHeader req of
        Inr result \<Rightarrow> result
      | Inl e \<Rightarrow>
          (Finished (invalid (''Verification failed: '' @ message e)),
           print (ConsoleError ''Verification error:'' e) st))"

text \<open>What is left after the \<^verbatim>\<open>await\<close> (lines 106-116).\<close>

fun verify_resume :: "verify_state \<Rightarrow> verify_response" where
  "verify_resume (Finished response) = response"
| "verify_resume (AwaitingSignature isValidSignature) =
     (if \<not> isValidSignature then invalid ''Invalid signature'' else valid)"

text \<open>A call of \<^verbatim>\<open>verify\<close> that is awaited before anything else runs.\<close>

definition verify ::
  "runtime \<Rightarrow> facilitator \<Rightarrow> int \<Rightarrow> string \<Rightarrow> payment_requirement \<Rightarrow>
   verify_response \<times> facilitator" where
  "verify rt st date_now paymentHeader req =
     (case verify_begin rt st date_now paymentHeader req of
        (vs, st') \<Rightarrow> (verify_resume vs, st'))"

subsection \<open>settle (lines 135-181)\<close>

text \<open>
  The transaction hash is 64 hexadecimal digits drawn with \<^verbatim>\<open>Math.random\<close>; the draws
  are an input, \<open>rand i\<close> for the i-th.
\<close>

definition hex_digit :: "nat \<Rightarrow> char" where
  "hex_digit d = ''0123456789abcdef'' ! (d mod 16)"

definition fake_tx_hash :: "(nat \<Rightarrow> nat) \<Rightarrow> string" where
  "fake_tx_hash rand = ''0x'' @ map (\<lambda>i. hex_digit (rand i)) [0..<64]"

text \<open>The \<^verbatim>\<open>try\<close> block of \<^verbatim>\<open>settle\<close> (lines 149-174). It runs only once the
  verification of the same header has passed, so the network, the value and the two
  addresses it prints are strings, and nothing in it can throw once the nonce has been
  added: the values read afterwards have been read from before.\<close>

definition settle_try ::
  "runtime \<Rightarrow> facilitator \<Rightarrow> string \<Rightarrow> (nat \<Rightarrow> nat) \<Rightarrow>
   js_error + settle_response \<times> facilitator" where
  "settle_try rt st paymentHeader rand =
     and_then (decode_header rt paymentHeader) (\<lambda>paymentPayload.
     and_then (get_prop paymentPayload ''payload'') (\<lambda>eip3009Payload.
     and_then (get_prop eip3009Payload ''nonce'') (\<lambda>n.
       let st1 = st\<lparr>usedNonces := set_add (usedNonces st) n\<rparr>;
           fakeTxHash = fake_tx_hash rand;
           st2 = print (ConsoleLog ''[Facilitator] Simulated settlement on ''
                          (read paymentPayload ''network'') []) st1;
           st3 = print (ConsoleLog ''[Facilitator] Transaction hash: '' (JStr fakeTxHash) []) st2;
           st4 = print (ConsoleLog ''[Facilitator] Amount: ''
                          (read eip3009Payload ''value'') '' (smallest unit)'') st3;
           st5 = print (ConsoleLog ''[Facilitator] From: '' (read eip3009Payload ''from'') []) st4;
           st6 = print (ConsoleLog ''[Facilitator] To: '' (read eip3009Payload ''to'') []) st5
       in Inr (\<lparr>success = True, txHash = Some fakeTxHash,
                 networkId = Some (read paymentPayload ''network''), error = None\<rparr>, st6))))"

text \<open>\<^verbatim>\<open>settle\<close> after its \<^verbatim>\<open>await this.verify(...)\<close> (line 140) has delivered the
  verification.\<close>

definition settle_resume ::
  "runtime \<Rightarrow> facilitator \<Rightarrow> verify_response \<Rightarrow> string \<Rightarrow> (nat \<Rightarrow> nat) \<Rightarrow>
   settle_response \<times> facilitator" where
  "settle_resume rt st verification paymentHeader rand =
     (if \<not> isValid verification
      then (failure (or_default (invalidReason verification) ''Payment verification failed''), st)
      else (case settle_try rt st paymentHeader rand of
              Inr result \<Rightarrow> result
            | Inl e \<Rightarrow> (failure (''Settlement failed: '' @ message e), st)))"

text \<open>A call of \<^verbatim>\<open>settle\<close> that is awaited before anything else runs.\<close>

definition settle ::
  "runtime \<Rightarrow> facilitator \<Rightarrow> int \<Rightarrow> string \<Rightarrow> payment_requirement \<Rightarrow> (nat \<Rightarrow> nat) \<Rightarrow>
   settle_response \<times> facilitator" where
  "settle rt st date_now paymentHeader req rand =
     (case verify rt st date_now paymentHeader req of
        (verification, st1) \<Rightarrow> settle_resume rt st1 verification paymentHeader rand)"

section \<open>Notions the properties are stated with\<close>

text \<open>The nonce a header carries: \<^verbatim>\<open>payload.nonce\<close> of what it decodes to, when the
  reads on the way succeed.\<close>

definition header_nonce :: "runtime \<Rightarrow> string \<Rightarrow> jsval option" where
  "header_nonce rt h =
     (case decode_header rt h of
        Inl e \<Rightarrow> None
      | Inr p \<Rightarrow>
          (case get_prop p ''payload'' of
             Inl e \<Rightarrow> None
           | Inr eip \<Rightarrow> (case get_prop eip ''nonce'' of Inl e \<Rightarrow> None | Inr n \<Rightarrow> Some n)))"

text \<open>A header that gets as far as the nonce lookup: it decodes, its version is 1, its
  scheme and network are the requirement's, and the scheme is \<^verbatim>\<open>exact\<close>.\<close>

definition reaches_nonce_check :: "runtime \<Rightarrow> string \<Rightarrow> payment_requirement \<Rightarrow> bool" where
  "reaches_nonce_check rt h r =
     (case decode_header rt h of
        Inl e \<Rightarrow> False
      | Inr p \<Rightarrow>
          read p ''x402Version'' = JNum 1 \<and> read p ''scheme'' = JStr (scheme r) \<and>
          read p ''network'' = JStr (network r) \<and> scheme r = ''exact'')"

text \<open>The reasons \<^verbatim>\<open>verify\<close> spells out in its \<^verbatim>\<open>return\<close> statements, in the order of
  the source. The ninth, built in the \<^verbatim>\<open>catch\<close>, is \<^verbatim>\<open>Verification failed: \<close> followed by
  the message of the error caught.\<close>

definition fixed_reasons :: "string list" where
  "fixed_reasons =
     [''Unsupported x402 version'', ''Scheme or network mismatch'', ''Nonce already used'',
      ''Payment amount mismatch'', ''Payment recipient mismatch'', ''Payment expired'',
      ''Invalid signature'', ''Unsupported payment scheme'']"

text \<open>
  The spec's taxonomy of failure reasons (section 7), and the entry a reason string of the
  code stands for, read as generously as the strings allow: each literal for the check it
  names, and whatever the two \<^verbatim>\<open>catch\<close> blocks build for \<^verbatim>\<open>malformed\<close> and
  \<^verbatim>\<open>submissionError\<close>.
\<close>

datatype spec_reason =
    UnsupportedVersion | SchemeOrNetworkMismatch | AmountMismatch | RecipientMismatch
  | Expired | NonceReused | BadSignature | Malformed | SubmissionError

definition spec_reason_of :: "string \<Rightarrow> spec_reason option" where
  "spec_reason_of s =
     (if s = ''Unsupported x402 version'' then Some UnsupportedVersion
      else if s = ''Scheme or network mismatch'' then Some SchemeOrNetworkMismatch
      else if s = ''Payment amount mismatch'' then Some AmountMismatch
      else if s = ''Payment recipient mismatch'' then Some RecipientMismatch
      else if s = ''Payment expired'' then Some Expired
      else if s = ''Nonce already used'' then Some NonceReused
      else if s = ''Invalid signature'' then Some BadSignature
      else if take 21 s = ''Verification failed: '' then Some Malformed
      else if take 19 s = ''Settlement failed: '' then Some SubmissionError
      else None)"

text \<open>Calls made one after the other, each awaited before the next: the state they
  leave.\<close>

datatype call =
    VerifyCall int string payment_requirement
  | SettleCall int string payment_requirement "nat \<Rightarrow> nat"

fun run_call :: "runtime \<Rightarrow> facilitator \<Rightarrow> call \<Rightarrow> facilitator" where
  "run_call rt st (VerifyCall t h r) = snd (verify rt st t h r)"
| "run_call rt st (SettleCall t h r rand) = snd (settle rt st t h r rand)"

definition run_calls :: "runtime \<Rightarrow> facilitator \<Rightarrow> call list \<Rightarrow> facilitator" where
  "run_calls rt st cs = foldl (run_call rt) st cs"

subsection \<open>Calls that overlap\<close>

text \<open>
  A caller that does not await one \<^verbatim>\<open>settle\<close> before making the next has several calls
  in flight. JavaScript runs each stretch of code between two suspension points without
  interruption, so a call of \<^verbatim>\<open>settle\<close> advances in three moves: the call itself, which
  runs \<^verbatim>\<open>verify\<close> up to its return or its \<^verbatim>\<open>await\<close> (line 101) and leaves \<^verbatim>\<open>settle\<close>
  suspended at line 140; the resumption of \<^verbatim>\<open>verify\<close>, which returns; and the
  resumption of \<^verbatim>\<open>settle\<close> (lines 142-180). A call whose \<^verbatim>\<open>verify\<close> returned before its
  \<^verbatim>\<open>await\<close> skips the second move. A schedule names, move by move, the call that
  advances.
\<close>

datatype progress =
    NotCalled
  | AwaitingVerify verify_state
  | Returned settle_response

record settle_call =
  call_header :: string
  call_requirement :: payment_requirement
  call_clock :: int
  call_random :: "nat \<Rightarrow> nat"
  call_progress :: progress

definition new_call :: "string \<Rightarrow> payment_requirement \<Rightarrow> int \<Rightarrow> (nat \<Rightarrow> nat) \<Rightarrow> settle_call" where
  "new_call h r t rand =
     \<lparr>call_header = h, call_requirement = r, call_clock = t, call_random = rand,
      call_progress = NotCalled\<rparr>"

definition advance :: "runtime \<Rightarrow> facilitator \<Rightarrow> settle_call \<Rightarrow> settle_call \<times> facilitator" where
  "advance rt st c =
     (case call_progress c of
        NotCalled \<Rightarrow>
          (case verify_begin rt st (call_clock c) (call_header c) (call_requirement c) of
             (vs, st') \<Rightarrow> (c\<lparr>call_progress := AwaitingVerify vs\<rparr>, st'))
      | AwaitingVerify (AwaitingSignature b) \<Rightarrow>
          (c\<lparr>call_progress := AwaitingVerify (Finished (verify_resume (AwaitingSignature b)))\<rparr>, st)
      | AwaitingVerify (Finished v) \<Rightarrow>
          (case settle_resume rt st v (call_header c) (call_random c) of
             (response, st') \<Rightarrow> (c\<lparr>call_progress := Returned response\<rparr>, st'))
      | Returned response \<Rightarrow> (c, st))"

definition move ::
  "runtime \<Rightarrow> facilitator \<times> settle_call list \<Rightarrow> nat \<Rightarrow> facilitator \<times> settle_call list" where
  "move rt cfg i =
     (case cfg of
        (st, cs) \<Rightarrow>
          if i < length cs
          then (case advance rt st (cs ! i) of (c', st') \<Rightarrow> (st', cs[i := c']))
          else (st, cs))"

definition run_schedule ::
  "runtime \<Rightarrow> facilitator \<times> settle_call list \<Rightarrow> nat list \<Rightarrow> facilitator \<times> settle_call list" where
  "run_schedule rt cfg schedule = foldl (move rt) cfg schedule"

definition outcomes :: "facilitator \<times> settle_call list \<Rightarrow> progress list" where
  "outcomes cfg = map call_progress (snd cfg)"

fun succeeded :: "progress \<Rightarrow> bool" where
  "succeeded (Returned response) = success response"
| "succeeded NotCalled = False"
| "succeeded (AwaitingVerify vs) = False"

section \<open>A worked scenario\<close>

text \<open>
  The end-to-end scenario of the spec (section 8): one requirement, the payments a client
  may send for it, and a runtime in which the headers are opaque names for their decoded
  payloads and one signature, by the payer and for chain 84532, recovers. One payment has
  for \<^verbatim>\<open>validBefore\<close> an object that cannot be converted to a number, \<^verbatim>\<open>{"toString": 1}\<close>;
  all the others have numbers there, so the runtime's comparison of other values is only
  ever asked about that object, and throws as the engine does. It is the concrete input at
  which the theorems below are instantiated.
\<close>

definition example_requirement :: payment_requirement where
  "example_requirement =
     \<lparr>scheme = ''exact'', network = ''base-sepolia'', maxAmountRequired = ''1000000'',
      payTo = ''0xRecipient'', asset = ''0xUSDC'', maxTimeoutSeconds = 300,
      extra = None, req_nonce = None\<rparr>"

definition authorization :: "string \<Rightarrow> string \<Rightarrow> int \<Rightarrow> int \<Rightarrow> jsval" where
  "authorization v n va vb =
     JObj [(''from'', JStr ''0xPayer''), (''to'', JStr ''0xRECIPIENT''), (''value'', JStr v),
           (''validAfter'', JNum va), (''validBefore'', JNum vb), (''nonce'', JStr n),
           (''signature'', JStr ''signed-by-0xPAYER'')]"

definition payment :: "int \<Rightarrow> string \<Rightarrow> jsval \<Rightarrow> jsval" where
  "payment ver sch eip =
     JObj [(''x402Version'', JNum ver), (''scheme'', JStr sch),
           (''network'', JStr ''base-sepolia''), (''payload'', eip)]"

definition example_headers :: "(string \<times> jsval) list" where
  "example_headers =
     [(''paid'', payment 1 ''exact'' (authorization ''1000000'' ''0x01'' 940 2000)),
      (''paid-v2'', payment 2 ''exact'' (authorization ''1000000'' ''0x01'' 940 2000)),
      (''paid-early'', payment 1 ''exact'' (authorization ''1000000'' ''0x03'' 5000 9000)),
      (''underpaid'', payment 1 ''exact'' (authorization ''999999'' ''0x02'' 940 2000)),
      (''underpaid-replay'', payment 1 ''exact'' (authorization ''999999'' ''0x01'' 940 2000)),
      (''upto'', payment 1 ''upto'' (authorization ''1000000'' ''0x04'' 940 2000)),
      (''odd-expiry'',
         payment 1 ''exact''
           (JObj [(''from'', JStr ''0xPayer''), (''to'', JStr ''0xRECIPIENT''),
                  (''value'', JStr ''1000000''), (''validAfter'', JNum 940),
                  (''validBefore'', JObj [(''toString'', JNum 1)]), (''nonce'', JStr ''0x05''),
                  (''signature'', JStr ''signed-by-0xPAYER'')])),
      (''no-payload'', JObj [(''x402Version'', JNum 1), (''scheme'', JStr ''exact''),
                             (''network'', JStr ''base-sepolia'')]),
      (''empty-object'', JObj [])]"

text \<open>Lower case on the ASCII letters: what \<^verbatim>\<open>toLowerCase\<close> does to the addresses of
  the scenario, which are ASCII text.\<close>

definition lower_char :: "char \<Rightarrow> char" where
  "lower_char c =
     (case map_of (zip ''ABCDEFGHIJKLMNOPQRSTUVWXYZ'' ''abcdefghijklmnopqrstuvwxyz'') c of
        Some l \<Rightarrow> l
      | None \<Rightarrow> c)"

definition lower :: "string \<Rightarrow> string" where
  "lower s = map lower_char s"

definition example_runtime :: runtime where
  "example_runtime =
     \<lparr>decode_header = (\<lambda>h. case map_of example_headers h of
                               Some v \<Rightarrow> Inr v
                             | None \<Rightarrow> Inl (SyntaxError ''Unexpected end of JSON input'')),
      verifyTypedData = (\<lambda>d ts m sg.
         if sg = JStr ''signed-by-0xPAYER'' \<and> chainId d = ChainNumber 84532
         then Inr ''0xPAYER''
         else Inl (TypeError ''invalid signature'')),
      lower_case = lower,
      coerced_less = (\<lambda>v n. Inl (TypeError ''Cannot convert object to primitive value''))\<rparr>"

definition fresh :: facilitator where
  "fresh = \<lparr>usedNonces = [], console = []\<rparr>"

text \<open>The state once the payment \<^verbatim>\<open>paid\<close> has been settled, at second 1000.\<close>

definition after_payment :: facilitator where
  "after_payment =
     snd (settle example_runtime fresh 1000000 ''paid'' example_requirement (\<lambda>i. 7))"

text \<open>The same requirement for a scheme the facilitator does not implement.\<close>

definition upto_requirement :: payment_requirement where
  "upto_requirement = example_requirement\<lparr>scheme := ''upto''\<rparr>"

section \<open>Properties\<close>

lemma and_then_Inr [simp]: "and_then (Inr x) k = k x"
  by (simp add: and_then_def)

lemma and_then_Inl [simp]: "and_then (Inl e) k = Inl e"
  by (simp add: and_then_def)

lemmas model_defs =
  verify_def verify_begin_def verify_try_def verify_exact_def verifyEIP3009Signature_def
  signature_try_def build_message_def build_domain_def settle_def settle_resume_def
  settle_try_def set_has_def set_add_def lookup_def read_def invalid_def valid_def
  failure_def print_def or_default_def lower_def lower_char_def getChainId_def chainIds_def
  object_prototype_members_def Let_def

lemmas example_defs =
  example_runtime_def example_headers_def example_requirement_def authorization_def
  payment_def fresh_def upto_requirement_def

lemma after_payment_used: "usedNonces after_payment = [JStr ''0x01'']"
  by (simp add: after_payment_def model_defs example_defs)

subsection \<open>What verify leaves alone\<close>

lemma verify_exact_used:
  "verify_exact rt st t p r = Inr (vs, st') \<Longrightarrow> usedNonces st' = usedNonces st"
  unfolding verify_exact_def and_then_def
  by (auto split: sum.splits if_splits prod.splits simp: verifyEIP3009Signature_def print_def)

lemma verify_try_used:
  "verify_try rt st t h r = Inr (vs, st') \<Longrightarrow> usedNonces st' = usedNonces st"
  unfolding verify_try_def and_then_def
  by (auto split: sum.splits if_splits dest: verify_exact_used)

lemma verify_begin_used: "usedNonces (snd (verify_begin rt st t h r)) = usedNonces st"
  by (auto simp: verify_begin_def print_def split: sum.splits dest: verify_try_used)

lemma verify_used: "usedNonces (snd (verify rt st t h r)) = usedNonces st"
  by (simp add: verify_def case_prod_beta verify_begin_used)

text \<open>The verdict depends on the state through the used nonces only, not through what
  has been printed.\<close>

lemma verify_exact_cong:
  "usedNonces st = usedNonces st' \<Longrightarrow>
   map_sum id fst (verify_exact rt st t p r) = map_sum id fst (verify_exact rt st' t p r)"
  unfolding verify_exact_def and_then_def
  by (auto split: sum.splits if_splits prod.splits simp: verifyEIP3009Signature_def)

lemma verify_try_cong:
  "usedNonces st = usedNonces st' \<Longrightarrow>
   map_sum id fst (verify_try rt st t h r) = map_sum id fst (verify_try rt st' t h r)"
  unfolding verify_try_def and_then_def
  by (auto split: sum.splits if_splits dest: verify_exact_cong[of st st' rt t _ r])

lemma verify_begin_cong:
  "usedNonces st = usedNonces st' \<Longrightarrow>
   fst (verify_begin rt st t h r) = fst (verify_begin rt st' t h r)"
  using verify_try_cong[of st st' rt t h r]
  by (auto simp: verify_begin_def split: sum.splits)

lemma verify_cong:
  "usedNonces st = usedNonces st' \<Longrightarrow> fst (verify rt st t h r) = fst (verify rt st' t h r)"
  using verify_begin_cong[of st st' rt t h r] by (simp add: verify_def case_prod_beta)

text \<open>
  C2. \<^verbatim>\<open>verify\<close> never changes the used-nonce set, whatever it returns; so a second
  \<^verbatim>\<open>verify\<close> of the same header against the same requirement at the same clock reading,
  run on the state the first one left, returns what the first returned.
\<close>

theorem verify_read_only:
  "usedNonces (snd (verify rt st t h r)) = usedNonces st \<and>
   fst (verify rt (snd (verify rt st t h r)) t h r) = fst (verify rt st t h r)"
  using verify_cong[of "snd (verify rt st t h r)" st rt t h r]
  by (simp add: verify_used)

text \<open>At a header that does not parse the first call prints an error, and still the set
  is untouched and the second call answers the same.\<close>

theorem verify_read_only_witness:
  "console (snd (verify example_runtime fresh 1000000 ''garbage'' example_requirement)) \<noteq> [] \<and>
   usedNonces (snd (verify example_runtime fresh 1000000 ''garbage'' example_requirement)) = [] \<and>
   fst (verify example_runtime
          (snd (verify example_runtime fresh 1000000 ''garbage'' example_requirement))
          1000000 ''garbage'' example_requirement)
     = invalid ''Verification failed: Unexpected end of JSON input''"
  using verify_read_only[of example_runtime fresh 1000000 "''garbage''" example_requirement]
  by (simp add: model_defs example_defs)

subsection \<open>The answers of verify and settle\<close>

lemma verify_exact_Finished:
  "verify_exact rt st t p r = Inr (Finished v, st') \<Longrightarrow>
   \<exists>s \<in> set fixed_reasons. v = invalid s"
  unfolding verify_exact_def and_then_def fixed_reasons_def
  by (auto split: sum.splits if_splits prod.splits)

lemma verify_try_Finished:
  "verify_try rt st t h r = Inr (Finished v, st') \<Longrightarrow>
   \<exists>s \<in> set fixed_reasons. v = invalid s"
  unfolding verify_try_def and_then_def
  by (auto split: sum.splits if_splits dest: verify_exact_Finished simp: fixed_reasons_def)

lemma verify_begin_cases:
  "(\<exists>b. fst (verify_begin rt st t h r) = AwaitingSignature b) \<or>
   (\<exists>s \<in> set fixed_reasons. fst (verify_begin rt st t h r) = Finished (invalid s)) \<or>
   (\<exists>e. verify_try rt st t h r = Inl e \<and>
        fst (verify_begin rt st t h r) = Finished (invalid (''Verification failed: '' @ message e)))"
proof (cases "verify_try rt st t h r")
  case (Inl e)
  then show ?thesis by (simp add: verify_begin_def)
next
  case (Inr res)
  obtain vs st' where res: "res = (vs, st')" by (cases res)
  show ?thesis
  proof (cases vs)
    case (Finished v)
    with Inr res verify_try_Finished[of rt st t h r v st'] show ?thesis
      by (auto simp: verify_begin_def)
  next
    case (AwaitingSignature b)
    with Inr res show ?thesis by (simp add: verify_begin_def)
  qed
qed

lemma verify_cases:
  "fst (verify rt st t h r) = valid \<or>
   (\<exists>s \<in> set fixed_reasons. fst (verify rt st t h r) = invalid s) \<or>
   (\<exists>e. verify_try rt st t h r = Inl e \<and>
        fst (verify rt st t h r) = invalid (''Verification failed: '' @ message e))"
  using verify_begin_cases[of rt st t h r]
  by (auto simp: verify_def case_prod_beta fixed_reasons_def)

lemma verify_invalid_reason:
  "\<not> isValid (fst (verify rt st t h r)) \<Longrightarrow>
   \<exists>s. s \<noteq> [] \<and> fst (verify rt st t h r) = invalid s"
  using verify_cases[of rt st t h r]
  by (auto simp: fixed_reasons_def valid_def)

lemma verify_exact_valid_D:
  "verify_exact rt st t p r = Inr (AwaitingSignature b, st') \<Longrightarrow>
   \<exists>n. get_prop p ''nonce'' = Inr n \<and> \<not> set_has (usedNonces st) n"
  unfolding verify_exact_def and_then_def
  by (auto split: sum.splits if_splits prod.splits)

lemma verify_try_valid_D:
  "verify_try rt st t h r = Inr (AwaitingSignature b, st') \<Longrightarrow>
   \<exists>n. header_nonce rt h = Some n \<and> \<not> set_has (usedNonces st) n"
  unfolding verify_try_def and_then_def header_nonce_def
  by (auto split: sum.splits if_splits dest: verify_exact_valid_D)

lemma verify_valid_D:
  assumes "isValid (fst (verify rt st t h r))"
  shows "\<exists>n. header_nonce rt h = Some n \<and> \<not> set_has (usedNonces st) n"
proof -
  obtain vs st' where b: "verify_begin rt st t h r = (vs, st')"
    by (cases "verify_begin rt st t h r")
  with assms have v: "isValid (verify_resume vs)" by (simp add: verify_def)
  show ?thesis
  proof (cases "verify_try rt st t h r")
    case (Inl e)
    with b v show ?thesis by (auto simp: verify_begin_def invalid_def)
  next
    case (Inr res)
    with b have res: "verify_try rt st t h r = Inr (vs, st')" by (simp add: verify_begin_def)
    show ?thesis
    proof (cases vs)
      case (Finished w)
      with res verify_try_Finished[of rt st t h r w st'] v show ?thesis
        by (auto simp: invalid_def)
    next
      case (AwaitingSignature b)
      with res show ?thesis using verify_try_valid_D by blast
    qed
  qed
qed

lemma settle_try_commit:
  "header_nonce rt h = Some n \<Longrightarrow>
   \<exists>res st'. settle_try rt st h rand = Inr (res, st') \<and> success res \<and>
     usedNonces st' = set_add (usedNonces st) n"
  unfolding header_nonce_def settle_try_def
  by (auto split: sum.splits simp: Let_def print_def)


lemma settle_invalid:
  assumes "\<not> isValid (fst (verify rt st t h r))"
  shows "\<exists>s. fst (verify rt st t h r) = invalid s \<and>
           settle rt st t h r rand = (failure s, snd (verify rt st t h r))"
proof -
  from verify_invalid_reason[OF assms] obtain s where
    s: "s \<noteq> []" "fst (verify rt st t h r) = invalid s" by blast
  then have "settle rt st t h r rand = (failure s, snd (verify rt st t h r))"
    by (simp add: settle_def settle_resume_def case_prod_beta invalid_def or_default_def)
  with s show ?thesis by blast
qed

lemma settle_valid:
  assumes "isValid (fst (verify rt st t h r))"
  shows "\<exists>n. header_nonce rt h = Some n \<and> \<not> set_has (usedNonces st) n \<and>
           success (fst (settle rt st t h r rand)) \<and>
           usedNonces (snd (settle rt st t h r rand)) = usedNonces st @ [n]"
proof -
  from verify_valid_D[OF assms] obtain n where
    n: "header_nonce rt h = Some n" "\<not> set_has (usedNonces st) n" by blast
  from settle_try_commit[OF n(1), of "snd (verify rt st t h r)" rand] obtain res st' where
    c: "settle_try rt (snd (verify rt st t h r)) h rand = Inr (res, st')" "success res"
       "usedNonces st' = set_add (usedNonces (snd (verify rt st t h r))) n" by blast
  from assms c have "settle rt st t h r rand = (res, st')"
    by (simp add: settle_def settle_resume_def case_prod_beta)
  with c n show ?thesis by (simp add: verify_used set_add_def)
qed

text \<open>
  C3. \<^verbatim>\<open>settle\<close> runs \<^verbatim>\<open>verify\<close> first. When that verification is invalid it carries a
  reason, \<^verbatim>\<open>settle\<close> returns the failure with that reason as its error, and the state is
  the one \<^verbatim>\<open>verify\<close> left, with the used nonces unchanged. When it is valid the header's
  nonce was not in the set, \<^verbatim>\<open>settle\<close> succeeds and the set has grown by exactly that
  nonce, added once at its end. So \<^verbatim>\<open>settle\<close> succeeds exactly when the verification
  passed, and only then is a nonce consumed.
\<close>

theorem settle_verifies_then_commits:
  assumes "verify rt st t h r = (v, st1)"
  shows "(\<not> isValid v \<longrightarrow>
            (\<exists>s. invalidReason v = Some s \<and> settle rt st t h r rand = (failure s, st1)) \<and>
            usedNonces st1 = usedNonces st) \<and>
         (isValid v \<longrightarrow>
            (\<exists>n. header_nonce rt h = Some n \<and> \<not> set_has (usedNonces st) n \<and>
                 success (fst (settle rt st t h r rand)) \<and>
                 usedNonces (snd (settle rt st t h r rand)) = usedNonces st @ [n])) \<and>
         (success (fst (settle rt st t h r rand)) \<longleftrightarrow> isValid v)"
proof -
  from assms have v: "fst (verify rt st t h r) = v" "snd (verify rt st t h r) = st1" by simp_all
  have used: "usedNonces st1 = usedNonces st" using verify_used[of rt st t h r] v by simp
  show ?thesis
  proof (cases "isValid v")
    case True
    with settle_valid[of rt st t h r rand] v show ?thesis by auto
  next
    case False
    with settle_invalid[of rt st t h r rand] v obtain s where
      "v = invalid s" "settle rt st t h r rand = (failure s, st1)" by auto
    with False used show ?thesis by (simp add: invalid_def failure_def)
  qed
qed

theorem settle_verifies_then_commits_witness:
  "\<not> isValid (invalid ''Payment amount mismatch'') \<and>
   settle example_runtime fresh 1000000 ''underpaid'' example_requirement (\<lambda>i. 7)
     = (failure ''Payment amount mismatch'', fresh) \<and>
   isValid valid \<and>
   success (fst (settle example_runtime fresh 1000000 ''paid'' example_requirement (\<lambda>i. 7))) \<and>
   usedNonces (snd (settle example_runtime fresh 1000000 ''paid'' example_requirement (\<lambda>i. 7)))
     = [JStr ''0x01'']"
proof -
  have a: "verify example_runtime fresh 1000000 ''underpaid'' example_requirement
             = (invalid ''Payment amount mismatch'', fresh)"
    by (simp add: model_defs example_defs)
  have b: "verify example_runtime fresh 1000000 ''paid'' example_requirement = (valid, fresh)"
    by (simp add: model_defs example_defs)
  have n: "header_nonce example_runtime ''paid'' = Some (JStr ''0x01'')"
    by (simp add: header_nonce_def lookup_def example_defs)
  show ?thesis
    using settle_verifies_then_commits[OF a, of "\<lambda>i. 7"]
          settle_verifies_then_commits[OF b, of "\<lambda>i. 7"] n
    by (simp add: invalid_def valid_def fresh_def)
qed


subsection \<open>Replay\<close>

lemma read_get_prop: "read p f = v \<Longrightarrow> v \<noteq> JUndefined \<Longrightarrow> get_prop p f = Inr v"
  by (cases p) (auto simp: read_def)

lemma consumed_never_valid:
  assumes "header_nonce rt h = Some n" "set_has (usedNonces st) n"
  shows "\<not> isValid (fst (verify rt st t h r))"
  using verify_valid_D[of rt st t h r] assms by auto

lemma consumed_reason:
  assumes "reaches_nonce_check rt h r" "header_nonce rt h = Some n" "set_has (usedNonces st) n"
  shows "verify rt st t h r = (invalid ''Nonce already used'', st)"
proof -
  from assms(1) obtain p where p: "decode_header rt h = Inr p"
    "read p ''x402Version'' = JNum 1" "read p ''scheme'' = JStr (scheme r)"
    "read p ''network'' = JStr (network r)" "scheme r = ''exact''"
    by (auto simp: reaches_nonce_check_def split: sum.splits)
  from p(2-4) have g: "get_prop p ''x402Version'' = Inr (JNum 1)"
    "get_prop p ''scheme'' = Inr (JStr (scheme r))" "get_prop p ''network'' = Inr (JStr (network r))"
    by (simp_all add: read_get_prop)
  from assms(2) p(1) obtain e where e: "get_prop p ''payload'' = Inr e" "get_prop e ''nonce'' = Inr n"
    by (auto simp: header_nonce_def split: sum.splits)
  show ?thesis
    using p(1,5) g e assms(3)
    by (simp add: verify_def verify_begin_def verify_try_def verify_exact_def)
qed

lemma settle_used_mono:
  "set (usedNonces st) \<subseteq> set (usedNonces (snd (settle rt st t h r rand)))"
proof (cases "isValid (fst (verify rt st t h r))")
  case True
  from settle_valid[OF True, of rand] show ?thesis by auto
next
  case False
  from settle_invalid[OF False, of rand] show ?thesis by (auto simp: verify_used)
qed

lemma run_call_mono: "set (usedNonces st) \<subseteq> set (usedNonces (run_call rt st c))"
  by (cases c) (simp_all add: verify_used settle_used_mono)

lemma run_calls_mono: "set (usedNonces st) \<subseteq> set (usedNonces (run_calls rt st cs))"
  unfolding run_calls_def
proof (induction cs arbitrary: st)
  case Nil
  show ?case by simp
next
  case (Cons c cs)
  have "set (usedNonces st) \<subseteq> set (usedNonces (run_call rt st c))" by (rule run_call_mono)
  also have "\<dots> \<subseteq> set (usedNonces (foldl (run_call rt) (run_call rt st c) cs))"
    by (rule Cons.IH)
  finally show ?case by simp
qed

lemma settle_success_consumes:
  assumes "success (fst (settle rt st t h r rand))" "header_nonce rt h = Some n"
  shows "n \<in> set (usedNonces (snd (settle rt st t h r rand)))"
proof -
  have "isValid (fst (verify rt st t h r))"
  proof (rule ccontr)
    assume "\<not> isValid (fst (verify rt st t h r))"
    from settle_invalid[OF this, of rand] assms(1) show False by (auto simp: failure_def)
  qed
  from settle_valid[OF this, of rand] assms(2) show ?thesis by auto
qed

text \<open>
  C1, as the code has it. Once \<^verbatim>\<open>settle\<close> has succeeded for a header carrying the nonce
  \<open>n\<close> (a string, as the payload type declares), then after any further calls, each
  awaited, every \<^verbatim>\<open>verify\<close> of a header carrying \<open>n\<close> is invalid and every \<^verbatim>\<open>settle\<close>
  of one fails. The reason is \<^verbatim>\<open>Nonce already used\<close> whenever the header gets as far as
  the nonce lookup, that is when its version, scheme and network pass; a header that
  fails one of those is rejected with that check's reason.
\<close>

theorem replay_rejected:
  assumes "success (fst (settle rt st t h r rand))"
    and "header_nonce rt h = Some (JStr n)"
    and "header_nonce rt h' = Some (JStr n)"
    and "st' = run_calls rt (snd (settle rt st t h r rand)) calls"
  shows "\<not> isValid (fst (verify rt st' t' h' r')) \<and>
         \<not> success (fst (settle rt st' t' h' r' rand')) \<and>
         (reaches_nonce_check rt h' r' \<longrightarrow>
            fst (verify rt st' t' h' r') = invalid ''Nonce already used'' \<and>
            fst (settle rt st' t' h' r' rand') = failure ''Nonce already used'')"
proof -
  have "JStr n \<in> set (usedNonces (snd (settle rt st t h r rand)))"
    using assms(1,2) by (rule settle_success_consumes)
  with run_calls_mono[of "snd (settle rt st t h r rand)" rt calls] assms(4)
  have used: "set_has (usedNonces st') (JStr n)" by (auto simp: set_has_def)
  have nv: "\<not> isValid (fst (verify rt st' t' h' r'))"
    using assms(3) used by (rule consumed_never_valid)
  from settle_invalid[OF nv, of rand'] obtain s where
    s: "fst (verify rt st' t' h' r') = invalid s"
       "settle rt st' t' h' r' rand' = (failure s, snd (verify rt st' t' h' r'))" by blast
  have "s = ''Nonce already used''" if "reaches_nonce_check rt h' r'"
    using consumed_reason[OF that assms(3) used, of t'] s(1) by (simp add: invalid_def)
  with nv s show ?thesis by (auto simp: failure_def)
qed

theorem replay_rejected_witness:
  "success (fst (settle example_runtime fresh 1000000 ''paid'' example_requirement (\<lambda>i. 7))) \<and>
   header_nonce example_runtime ''paid'' = Some (JStr ''0x01'') \<and>
   header_nonce example_runtime ''underpaid-replay'' = Some (JStr ''0x01'') \<and>
   reaches_nonce_check example_runtime ''underpaid-replay'' example_requirement \<and>
   fst (verify example_runtime
         (run_calls example_runtime
            (snd (settle example_runtime fresh 1000000 ''paid'' example_requirement (\<lambda>i. 7)))
            [VerifyCall 1000000 ''underpaid'' example_requirement,
             SettleCall 1000000 ''paid-early'' example_requirement (\<lambda>i. 3)])
         1500000 ''underpaid-replay'' example_requirement)
     = invalid ''Nonce already used'' \<and>
   fst (settle example_runtime
         (run_calls example_runtime
            (snd (settle example_runtime fresh 1000000 ''paid'' example_requirement (\<lambda>i. 7)))
            [VerifyCall 1000000 ''underpaid'' example_requirement,
             SettleCall 1000000 ''paid-early'' example_requirement (\<lambda>i. 3)])
         1500000 ''underpaid-replay'' example_requirement (\<lambda>i. 9))
     = failure ''Nonce already used''"
proof -
  have a: "success (fst (settle example_runtime fresh 1000000 ''paid'' example_requirement (\<lambda>i. 7)))"
    by (simp add: model_defs example_defs)
  have b: "header_nonce example_runtime ''paid'' = Some (JStr ''0x01'')"
    by (simp add: header_nonce_def lookup_def example_defs)
  have c: "header_nonce example_runtime ''underpaid-replay'' = Some (JStr ''0x01'')"
    by (simp add: header_nonce_def lookup_def example_defs)
  have d: "reaches_nonce_check example_runtime ''underpaid-replay'' example_requirement"
    by (simp add: reaches_nonce_check_def read_def lookup_def example_defs)
  show ?thesis
    using replay_rejected[OF a b c refl, of
        "[VerifyCall 1000000 ''underpaid'' example_requirement,
          SettleCall 1000000 ''paid-early'' example_requirement (\<lambda>i. 3)]"
        1500000 example_requirement "\<lambda>i. 9"] a b c d
    by simp
qed

text \<open>The reason is not always the nonce's: the settled payment sent again with version 2
  is rejected for its version, by \<^verbatim>\<open>verify\<close> and by \<^verbatim>\<open>settle\<close>.\<close>

theorem replay_reason_counterexample:
  "success (fst (settle example_runtime fresh 1000000 ''paid'' example_requirement (\<lambda>i. 7))) \<and>
   header_nonce example_runtime ''paid'' = Some (JStr ''0x01'') \<and>
   header_nonce example_runtime ''paid-v2'' = Some (JStr ''0x01'') \<and>
   invalidReason (fst (verify example_runtime
       (snd (settle example_runtime fresh 1000000 ''paid'' example_requirement (\<lambda>i. 7)))
       1000000 ''paid-v2'' example_requirement)) = Some ''Unsupported x402 version'' \<and>
   error (fst (settle example_runtime
       (snd (settle example_runtime fresh 1000000 ''paid'' example_requirement (\<lambda>i. 7)))
       1000000 ''paid-v2'' example_requirement (\<lambda>i. 9))) = Some ''Unsupported x402 version''"
  by (simp add: model_defs example_defs header_nonce_def)


subsection \<open>The order of the checks\<close>

text \<open>On a payload that is an object whose \<^verbatim>\<open>to\<close> is a string no read throws, and
  the block is a chain of tests.\<close>

lemma verify_exact_object:
  assumes "lookup akvs ''to'' = JStr to"
  shows "verify_exact rt st t (JObj akvs) r =
     (if set_has (usedNonces st) (lookup akvs ''nonce'')
      then Inr (Finished (invalid ''Nonce already used''), st)
      else if lookup akvs ''value'' \<noteq> JStr (maxAmountRequired r)
      then Inr (Finished (invalid ''Payment amount mismatch''), st)
      else if lower_case rt to \<noteq> lower_case rt (payTo r)
      then Inr (Finished (invalid ''Payment recipient mismatch''), st)
      else and_then (less_than rt (lookup akvs ''validBefore'') (t div 1000)) (\<lambda>expired.
        if expired then Inr (Finished (invalid ''Payment expired''), st)
        else Inr (AwaitingSignature (fst (verifyEIP3009Signature rt st (JObj akvs) r)),
                  snd (verifyEIP3009Signature rt st (JObj akvs) r))))"
  using assms by (simp add: verify_exact_def case_prod_beta and_then_def split: sum.splits)

lemma verify_try_object:
  assumes "decode_header rt h = Inr (JObj kvs)"
  shows "verify_try rt st t h r =
     (if lookup kvs ''x402Version'' \<noteq> JNum 1
      then Inr (Finished (invalid ''Unsupported x402 version''), st)
      else if lookup kvs ''scheme'' \<noteq> JStr (scheme r) \<or> lookup kvs ''network'' \<noteq> JStr (network r)
      then Inr (Finished (invalid ''Scheme or network mismatch''), st)
      else if scheme r \<noteq> ''exact''
      then Inr (Finished (invalid ''Unsupported payment scheme''), st)
      else verify_exact rt st t (lookup kvs ''payload'') r)"
  using assms by (auto simp: verify_try_def)

lemma verify_decode_failure:
  assumes "decode_header rt h = Inl e"
  shows "verify rt st t h r =
     (invalid (''Verification failed: '' @ message e),
      print (ConsoleError ''Verification error:'' e) st)"
  using assms by (simp add: verify_def verify_begin_def verify_try_def)

text \<open>
  C6, as the code has it. \<^verbatim>\<open>verify\<close> decodes, and a header that does not decode is
  rejected with the parser's message. On a header that decodes to an object with an object
  for payload and a string for \<^verbatim>\<open>to\<close>, it tests in this order and returns the reason of
  the first test that fails: version, scheme and network, scheme supported
  (\<^verbatim>\<open>exact\<close>), nonce already used, amount, recipient (the two addresses in lower
  case), expiry, signature. The expiry test is \<^verbatim>\<open>validBefore < now\<close>; when that
  comparison throws, the verification fails with the message thrown. So a consumed nonce
  is reported even when the amount, the recipient, the expiry or the signature is wrong as
  well, but a wrong version, scheme or network is reported before it.
\<close>

theorem verify_check_order:
  "(decode_header rt h = Inl e \<longrightarrow>
      fst (verify rt st t h r) = invalid (''Verification failed: '' @ message e)) \<and>
   (decode_header rt h = Inr (JObj kvs) \<and> lookup kvs ''payload'' = JObj akvs \<and>
    lookup akvs ''to'' = JStr to \<longrightarrow>
      fst (verify rt st t h r) =
        (if lookup kvs ''x402Version'' \<noteq> JNum 1 then invalid ''Unsupported x402 version''
         else if lookup kvs ''scheme'' \<noteq> JStr (scheme r) \<or>
                 lookup kvs ''network'' \<noteq> JStr (network r)
         then invalid ''Scheme or network mismatch''
         else if scheme r \<noteq> ''exact'' then invalid ''Unsupported payment scheme''
         else if set_has (usedNonces st) (lookup akvs ''nonce'')
         then invalid ''Nonce already used''
         else if lookup akvs ''value'' \<noteq> JStr (maxAmountRequired r)
         then invalid ''Payment amount mismatch''
         else if lower_case rt to \<noteq> lower_case rt (payTo r)
         then invalid ''Payment recipient mismatch''
         else (case less_than rt (lookup akvs ''validBefore'') (t div 1000) of
                 Inl thrown \<Rightarrow> invalid (''Verification failed: '' @ message thrown)
               | Inr expired \<Rightarrow>
                   if expired then invalid ''Payment expired''
                   else if \<not> fst (verifyEIP3009Signature rt st (JObj akvs) r)
                   then invalid ''Invalid signature''
                   else valid)))"
proof (intro conjI impI)
  assume "decode_header rt h = Inl e"
  then show "fst (verify rt st t h r) = invalid (''Verification failed: '' @ message e)"
    by (simp add: verify_decode_failure)
next
  assume a: "decode_header rt h = Inr (JObj kvs) \<and> lookup kvs ''payload'' = JObj akvs \<and>
    lookup akvs ''to'' = JStr to"
  then have d: "decode_header rt h = Inr (JObj kvs)" and p: "lookup kvs ''payload'' = JObj akvs"
    and t: "lookup akvs ''to'' = JStr to" by simp_all
  show "fst (verify rt st t h r) =
        (if lookup kvs ''x402Version'' \<noteq> JNum 1 then invalid ''Unsupported x402 version''
         else if lookup kvs ''scheme'' \<noteq> JStr (scheme r) \<or>
                 lookup kvs ''network'' \<noteq> JStr (network r)
         then invalid ''Scheme or network mismatch''
         else if scheme r \<noteq> ''exact'' then invalid ''Unsupported payment scheme''
         else if set_has (usedNonces st) (lookup akvs ''nonce'')
         then invalid ''Nonce already used''
         else if lookup akvs ''value'' \<noteq> JStr (maxAmountRequired r)
         then invalid ''Payment amount mismatch''
         else if lower_case rt to \<noteq> lower_case rt (payTo r)
         then invalid ''Payment recipient mismatch''
         else (case less_than rt (lookup akvs ''validBefore'') (t div 1000) of
                 Inl thrown \<Rightarrow> invalid (''Verification failed: '' @ message thrown)
               | Inr expired \<Rightarrow>
                   if expired then invalid ''Payment expired''
                   else if \<not> fst (verifyEIP3009Signature rt st (JObj akvs) r)
                   then invalid ''Invalid signature''
                   else valid))"
    by (simp add: verify_def verify_begin_def verify_try_object[OF d] p verify_exact_object[OF t]
        and_then_def split: sum.splits)
qed

text \<open>A header that does not parse; the settled nonce sent again with a wrong amount,
  where the nonce is what is reported; and a payment whose \<^verbatim>\<open>validBefore\<close> makes the
  comparison throw.\<close>

theorem verify_check_order_witness:
  "decode_header example_runtime ''nonsense'' = Inl (SyntaxError ''Unexpected end of JSON input'') \<and>
   fst (verify example_runtime after_payment 1000000 ''nonsense'' example_requirement)
     = invalid ''Verification failed: Unexpected end of JSON input'' \<and>
   decode_header example_runtime ''underpaid-replay''
     = Inr (payment 1 ''exact'' (authorization ''999999'' ''0x01'' 940 2000)) \<and>
   set_has (usedNonces after_payment) (JStr ''0x01'') \<and>
   JStr ''999999'' \<noteq> JStr (maxAmountRequired example_requirement) \<and>
   fst (verify example_runtime after_payment 1000000 ''underpaid-replay'' example_requirement)
     = invalid ''Nonce already used'' \<and>
   less_than example_runtime (JObj [(''toString'', JNum 1)]) (1000000 div 1000)
     = Inl (TypeError ''Cannot convert object to primitive value'') \<and>
   fst (verify example_runtime after_payment 1000000 ''odd-expiry'' example_requirement)
     = invalid ''Verification failed: Cannot convert object to primitive value''"
proof -
  have o: "decode_header example_runtime ''odd-expiry''
     = Inr (JObj [(''x402Version'', JNum 1), (''scheme'', JStr ''exact''),
                  (''network'', JStr ''base-sepolia''),
                  (''payload'',
                   JObj [(''from'', JStr ''0xPayer''), (''to'', JStr ''0xRECIPIENT''),
                         (''value'', JStr ''1000000''), (''validAfter'', JNum 940),
                         (''validBefore'', JObj [(''toString'', JNum 1)]),
                         (''nonce'', JStr ''0x05''),
                         (''signature'', JStr ''signed-by-0xPAYER'')])])"
    by (simp add: example_runtime_def example_headers_def payment_def)
  have l: "less_than example_runtime (JObj [(''toString'', JNum 1)]) (1000000 div 1000)
     = Inl (TypeError ''Cannot convert object to primitive value'')"
    by (simp add: example_runtime_def)
  have d: "decode_header example_runtime ''underpaid-replay''
     = Inr (JObj [(''x402Version'', JNum 1), (''scheme'', JStr ''exact''),
                  (''network'', JStr ''base-sepolia''),
                  (''payload'', authorization ''999999'' ''0x01'' 940 2000)])"
    by (simp add: example_runtime_def example_headers_def payment_def)
  have e: "decode_header example_runtime ''nonsense''
     = Inl (SyntaxError ''Unexpected end of JSON input'')"
    by (simp add: example_runtime_def example_headers_def)
  show ?thesis
    using verify_check_order[of example_runtime "''nonsense''"
            "SyntaxError ''Unexpected end of JSON input''" after_payment 1000000
            example_requirement "[]" "[]" "[]"]
          verify_check_order[of example_runtime "''underpaid-replay''" "SyntaxError []"
            after_payment 1000000 example_requirement
            "[(''x402Version'', JNum 1), (''scheme'', JStr ''exact''),
              (''network'', JStr ''base-sepolia''),
              (''payload'', authorization ''999999'' ''0x01'' 940 2000)]"
            "[(''from'', JStr ''0xPayer''), (''to'', JStr ''0xRECIPIENT''),
              (''value'', JStr ''999999''), (''validAfter'', JNum 940),
              (''validBefore'', JNum 2000), (''nonce'', JStr ''0x01''),
              (''signature'', JStr ''signed-by-0xPAYER'')]" "''0xRECIPIENT''"]
          verify_check_order[of example_runtime "''odd-expiry''" "SyntaxError []"
            after_payment 1000000 example_requirement
            "[(''x402Version'', JNum 1), (''scheme'', JStr ''exact''),
              (''network'', JStr ''base-sepolia''),
              (''payload'',
               JObj [(''from'', JStr ''0xPayer''), (''to'', JStr ''0xRECIPIENT''),
                     (''value'', JStr ''1000000''), (''validAfter'', JNum 940),
                     (''validBefore'', JObj [(''toString'', JNum 1)]),
                     (''nonce'', JStr ''0x05''),
                     (''signature'', JStr ''signed-by-0xPAYER'')])]"
            "[(''from'', JStr ''0xPayer''), (''to'', JStr ''0xRECIPIENT''),
              (''value'', JStr ''1000000''), (''validAfter'', JNum 940),
              (''validBefore'', JObj [(''toString'', JNum 1)]),
              (''nonce'', JStr ''0x05''),
              (''signature'', JStr ''signed-by-0xPAYER'')]" "''0xRECIPIENT''"]
          d e o l
    by (simp add: after_payment_used set_has_def lookup_def authorization_def payment_def
        example_requirement_def example_runtime_def lower_def lower_char_def)
qed

text \<open>The settled nonce sent again with version 2: the version is what is reported.\<close>

theorem consumed_nonce_wrong_version_counterexample:
  "set_has (usedNonces after_payment) (JStr ''0x01'') \<and>
   header_nonce example_runtime ''paid-v2'' = Some (JStr ''0x01'') \<and>
   fst (verify example_runtime after_payment 1000000 ''paid-v2'' example_requirement)
     = invalid ''Unsupported x402 version'' \<and>
   invalid ''Unsupported x402 version'' \<noteq> invalid ''Nonce already used''"
  by (simp add: after_payment_used header_nonce_def model_defs example_defs)


subsection \<open>Schemes other than exact\<close>

lemma verify_reaching_exact:
  assumes "decode_header rt h = Inr p" "read p ''x402Version'' = JNum 1"
    "read p ''scheme'' = JStr (scheme r)" "read p ''network'' = JStr (network r)"
  shows "verify_try rt st t h r =
     (if scheme r = ''exact''
      then and_then (get_prop p ''payload'') (\<lambda>eip. verify_exact rt st t eip r)
      else Inr (Finished (invalid ''Unsupported payment scheme''), st))"
  using assms by (simp add: verify_try_def read_get_prop)

text \<open>
  C10. A header that decodes, has version 1 and the scheme and network of the requirement,
  where that scheme is not \<^verbatim>\<open>exact\<close>, is rejected with the reason
  \<^verbatim>\<open>Unsupported payment scheme\<close>, which stands for no entry of the spec's taxonomy. The
  answer is the same in every state, at every time and whatever the payload holds or the
  signature library says: neither the nonces, the amount, the recipient, the expiry nor
  the signature is looked at, and nothing is printed.
\<close>

theorem unsupported_scheme_rejected:
  assumes "decode_header rt h = Inr p"
    and "read p ''x402Version'' = JNum 1"
    and "read p ''scheme'' = JStr (scheme r)"
    and "read p ''network'' = JStr (network r)"
    and "scheme r \<noteq> ''exact''"
  shows "verify rt st t h r = (invalid ''Unsupported payment scheme'', st) \<and>
         spec_reason_of ''Unsupported payment scheme'' = None"
  using assms(5) verify_reaching_exact[OF assms(1-4), of st t]
  by (simp add: verify_def verify_begin_def spec_reason_of_def)

theorem unsupported_scheme_rejected_witness:
  "decode_header example_runtime ''upto''
     = Inr (payment 1 ''upto'' (authorization ''1000000'' ''0x04'' 940 2000)) \<and>
   scheme upto_requirement \<noteq> ''exact'' \<and>
   verify example_runtime after_payment 1000000 ''upto'' upto_requirement
     = (invalid ''Unsupported payment scheme'', after_payment)"
proof -
  have d: "decode_header example_runtime ''upto''
     = Inr (payment 1 ''upto'' (authorization ''1000000'' ''0x04'' 940 2000))"
    by (simp add: example_runtime_def example_headers_def)
  have r: "read (payment 1 ''upto'' (authorization ''1000000'' ''0x04'' 940 2000)) ''x402Version''
             = JNum 1"
    "read (payment 1 ''upto'' (authorization ''1000000'' ''0x04'' 940 2000)) ''scheme''
             = JStr (scheme upto_requirement)"
    "read (payment 1 ''upto'' (authorization ''1000000'' ''0x04'' 940 2000)) ''network''
             = JStr (network upto_requirement)"
    by (simp_all add: read_def lookup_def payment_def upto_requirement_def example_requirement_def)
  have s: "scheme upto_requirement \<noteq> ''exact''"
    by (simp add: upto_requirement_def)
  show ?thesis
    using unsupported_scheme_rejected[OF d r s, of after_payment 1000000] d s by simp
qed


subsection \<open>Expiry and acceptance\<close>

lemma verify_reaching_signature:
  assumes "decode_header rt h = Inr (JObj kvs)"
    and "lookup kvs ''x402Version'' = JNum 1"
    and "lookup kvs ''scheme'' = JStr (scheme r)"
    and "lookup kvs ''network'' = JStr (network r)"
    and "scheme r = ''exact''"
    and "lookup kvs ''payload'' = JObj akvs"
    and "\<not> set_has (usedNonces st) (lookup akvs ''nonce'')"
    and "lookup akvs ''value'' = JStr (maxAmountRequired r)"
    and "lookup akvs ''to'' = JStr to"
    and "lower_case rt to = lower_case rt (payTo r)"
    and "lookup akvs ''validBefore'' = JNum validBefore"
  shows "verify_begin rt st t h r =
     (if validBefore < t div 1000
      then (Finished (invalid ''Payment expired''), st)
      else (AwaitingSignature (fst (verifyEIP3009Signature rt st (JObj akvs) r)),
            snd (verifyEIP3009Signature rt st (JObj akvs) r)))"
  using assms(2-8,10,11)
  by (simp add: verify_begin_def verify_try_object[OF assms(1)] verify_exact_object[OF assms(9)])

text \<open>
  C7. For a payment that passes the checks before the timing check, with a number for
  \<^verbatim>\<open>validBefore\<close>: it is rejected as expired exactly when \<^verbatim>\<open>validBefore\<close> is below the
  current second (\<^verbatim>\<open>Date.now()\<close> in milliseconds, divided by 1000 and floored), and
  otherwise the verdict is the signature verifier's alone. Nothing is assumed of
  \<^verbatim>\<open>validAfter\<close>, which may be past, future or absent: no check reads it.
\<close>

theorem expiry_is_the_timing_check:
  assumes "decode_header rt h = Inr (JObj kvs)"
    and "lookup kvs ''x402Version'' = JNum 1"
    and "lookup kvs ''scheme'' = JStr (scheme r)"
    and "lookup kvs ''network'' = JStr (network r)"
    and "scheme r = ''exact''"
    and "lookup kvs ''payload'' = JObj akvs"
    and "\<not> set_has (usedNonces st) (lookup akvs ''nonce'')"
    and "lookup akvs ''value'' = JStr (maxAmountRequired r)"
    and "lookup akvs ''to'' = JStr to"
    and "lower_case rt to = lower_case rt (payTo r)"
    and "lookup akvs ''validBefore'' = JNum validBefore"
  shows "(validBefore < t div 1000 \<longrightarrow>
            fst (verify rt st t h r) = invalid ''Payment expired'') \<and>
         (t div 1000 \<le> validBefore \<longrightarrow>
            fst (verify rt st t h r) =
              (if fst (verifyEIP3009Signature rt st (JObj akvs) r) then valid
               else invalid ''Invalid signature''))"
  using verify_reaching_signature[OF assms, of t]
  by (auto simp: verify_def)


lemmas paid_payload =
  example_runtime_def example_headers_def payment_def authorization_def lookup_def
  example_requirement_def

text \<open>The payment valid before second 2000 is accepted in second 2000 and expired in
  second 2001; a payment valid only from second 5000 is accepted in second 1000.\<close>

theorem expiry_is_the_timing_check_witness:
  "decode_header example_runtime ''paid''
     = Inr (payment 1 ''exact'' (authorization ''1000000'' ''0x01'' 940 2000)) \<and>
   2000999 div 1000 = (2000::int) \<and>
   fst (verify example_runtime fresh 2000999 ''paid'' example_requirement) = valid \<and>
   2001000 div 1000 - 1 = (2000::int) \<and>
   fst (verify example_runtime fresh 2001000 ''paid'' example_requirement)
     = invalid ''Payment expired'' \<and>
   decode_header example_runtime ''paid-early''
     = Inr (payment 1 ''exact'' (authorization ''1000000'' ''0x03'' 5000 9000)) \<and>
   1000000 div 1000 < (5000::int) \<and>
   fst (verify example_runtime fresh 1000000 ''paid-early'' example_requirement) = valid"
proof -
  have sg: "fst (verifyEIP3009Signature example_runtime fresh
                  (authorization ''1000000'' n va vb) example_requirement)" for n va vb
    by (simp add: model_defs example_defs)
  have a: "fst (verify example_runtime fresh 2000999 ''paid'' example_requirement) =
      (if fst (verifyEIP3009Signature example_runtime fresh
                 (authorization ''1000000'' ''0x01'' 940 2000) example_requirement)
       then valid else invalid ''Invalid signature'')"
    using expiry_is_the_timing_check[of example_runtime "''paid''"
        "[(''x402Version'', JNum 1), (''scheme'', JStr ''exact''),
          (''network'', JStr ''base-sepolia''),
          (''payload'', authorization ''1000000'' ''0x01'' 940 2000)]"
        example_requirement
        "[(''from'', JStr ''0xPayer''), (''to'', JStr ''0xRECIPIENT''),
          (''value'', JStr ''1000000''), (''validAfter'', JNum 940),
          (''validBefore'', JNum 2000), (''nonce'', JStr ''0x01''),
          (''signature'', JStr ''signed-by-0xPAYER'')]"
        fresh "''0xRECIPIENT''" 2000 2000999]
    by (simp add: paid_payload fresh_def set_has_def lower_def lower_char_def)
  have b: "fst (verify example_runtime fresh 2001000 ''paid'' example_requirement)
      = invalid ''Payment expired''"
    using expiry_is_the_timing_check[of example_runtime "''paid''"
        "[(''x402Version'', JNum 1), (''scheme'', JStr ''exact''),
          (''network'', JStr ''base-sepolia''),
          (''payload'', authorization ''1000000'' ''0x01'' 940 2000)]"
        example_requirement
        "[(''from'', JStr ''0xPayer''), (''to'', JStr ''0xRECIPIENT''),
          (''value'', JStr ''1000000''), (''validAfter'', JNum 940),
          (''validBefore'', JNum 2000), (''nonce'', JStr ''0x01''),
          (''signature'', JStr ''signed-by-0xPAYER'')]"
        fresh "''0xRECIPIENT''" 2000 2001000]
    by (simp add: paid_payload fresh_def set_has_def lower_def lower_char_def)
  have c: "fst (verify example_runtime fresh 1000000 ''paid-early'' example_requirement) =
      (if fst (verifyEIP3009Signature example_runtime fresh
                 (authorization ''1000000'' ''0x03'' 5000 9000) example_requirement)
       then valid else invalid ''Invalid signature'')"
    using expiry_is_the_timing_check[of example_runtime "''paid-early''"
        "[(''x402Version'', JNum 1), (''scheme'', JStr ''exact''),
          (''network'', JStr ''base-sepolia''),
          (''payload'', authorization ''1000000'' ''0x03'' 5000 9000)]"
        example_requirement
        "[(''from'', JStr ''0xPayer''), (''to'', JStr ''0xRECIPIENT''),
          (''value'', JStr ''1000000''), (''validAfter'', JNum 5000),
          (''validBefore'', JNum 9000), (''nonce'', JStr ''0x03''),
          (''signature'', JStr ''signed-by-0xPAYER'')]"
        fresh "''0xRECIPIENT''" 9000 1000000]
    by (simp add: paid_payload fresh_def set_has_def lower_def lower_char_def)
  have d: "decode_header example_runtime ''paid''
     = Inr (payment 1 ''exact'' (authorization ''1000000'' ''0x01'' 940 2000))"
    "decode_header example_runtime ''paid-early''
     = Inr (payment 1 ''exact'' (authorization ''1000000'' ''0x03'' 5000 9000))"
    by (simp_all add: example_runtime_def example_headers_def)
  show ?thesis using a b c d sg by simp
qed


lemma signature_accepts:
  assumes "build_message (JObj akvs) = Inr m"
    and "verifyTypedData rt (build_domain r) transfer_types m (lookup akvs ''signature'') = Inr a"
    and "lookup akvs ''from'' = JStr f"
    and "lower_case rt a = lower_case rt f"
  shows "verifyEIP3009Signature rt st (JObj akvs) r = (True, st)"
  using assms by (simp add: verifyEIP3009Signature_def signature_try_def)

text \<open>
  C5, as the code has it. A header that decodes to a payment with version 1, the scheme and
  network of the requirement, that scheme being \<^verbatim>\<open>exact\<close>, a nonce not in the used set,
  the required amount, the required recipient up to letter case, a \<^verbatim>\<open>validBefore\<close> not
  below the current second, and a signature from which \<^verbatim>\<open>verifyTypedData\<close>, over the
  domain built from the requirement and the message built from the payload, recovers the
  \<^verbatim>\<open>from\<close> address up to letter case: \<^verbatim>\<open>verify\<close> answers valid, with no reason, and
  leaves the state as it was.
\<close>

theorem exact_payment_verifies:
  assumes "decode_header rt h = Inr (JObj kvs)"
    and "lookup kvs ''x402Version'' = JNum 1"
    and "lookup kvs ''scheme'' = JStr (scheme r)"
    and "lookup kvs ''network'' = JStr (network r)"
    and "scheme r = ''exact''"
    and "lookup kvs ''payload'' = JObj akvs"
    and "\<not> set_has (usedNonces st) (lookup akvs ''nonce'')"
    and "lookup akvs ''value'' = JStr (maxAmountRequired r)"
    and "lookup akvs ''to'' = JStr to"
    and "lower_case rt to = lower_case rt (payTo r)"
    and "lookup akvs ''validBefore'' = JNum validBefore"
    and "t div 1000 \<le> validBefore"
    and "build_message (JObj akvs) = Inr m"
    and "verifyTypedData rt (build_domain r) transfer_types m (lookup akvs ''signature'') = Inr a"
    and "lookup akvs ''from'' = JStr f"
    and "lower_case rt a = lower_case rt f"
  shows "verify rt st t h r = (valid, st)"
  using assms(12) verify_reaching_signature[OF assms(1-11), of t]
    signature_accepts[OF assms(13-16), of st]
  by (simp add: verify_def)

theorem exact_payment_verifies_witness:
  "decode_header example_runtime ''paid''
     = Inr (payment 1 ''exact'' (authorization ''1000000'' ''0x01'' 940 2000)) \<and>
   scheme example_requirement = ''exact'' \<and>
   lower_case example_runtime ''0xRECIPIENT''
     = lower_case example_runtime (payTo example_requirement) \<and>
   1000000 div 1000 \<le> (2000::int) \<and>
   lower_case example_runtime ''0xPAYER'' = lower_case example_runtime ''0xPayer'' \<and>
   verify example_runtime fresh 1000000 ''paid'' example_requirement = (valid, fresh)"
proof -
  have d: "decode_header example_runtime ''paid''
     = Inr (payment 1 ''exact'' (authorization ''1000000'' ''0x01'' 940 2000))"
    by (simp add: example_runtime_def example_headers_def)
  have "verify example_runtime fresh 1000000 ''paid'' example_requirement = (valid, fresh)"
    using exact_payment_verifies[of example_runtime "''paid''"
        "[(''x402Version'', JNum 1), (''scheme'', JStr ''exact''),
          (''network'', JStr ''base-sepolia''),
          (''payload'', authorization ''1000000'' ''0x01'' 940 2000)]"
        example_requirement
        "[(''from'', JStr ''0xPayer''), (''to'', JStr ''0xRECIPIENT''),
          (''value'', JStr ''1000000''), (''validAfter'', JNum 940),
          (''validBefore'', JNum 2000), (''nonce'', JStr ''0x01''),
          (''signature'', JStr ''signed-by-0xPAYER'')]"
        fresh "''0xRECIPIENT''" 2000 1000000
        "\<lparr>msg_from = JStr ''0xPayer'', msg_to = JStr ''0xRECIPIENT'',
          msg_value = JStr ''1000000'', msg_validAfter = JNum 940,
          msg_validBefore = JNum 2000, msg_nonce = JStr ''0x01''\<rparr>"
        "''0xPAYER''" "''0xPayer''"]
    by (simp add: paid_payload fresh_def set_has_def lower_def lower_char_def
        build_message_def build_domain_def getChainId_def chainIds_def or_default_def)
  with d show ?thesis
    by (simp add: example_requirement_def example_runtime_def lower_def lower_char_def)
qed

text \<open>Without the scheme being \<^verbatim>\<open>exact\<close> the rest does not suffice: a payment for a
  requirement of scheme \<^verbatim>\<open>upto\<close> that matches it in every listed respect, signature
  included, is rejected.\<close>

theorem other_scheme_counterexample:
  "decode_header example_runtime ''upto''
     = Inr (JObj [(''x402Version'', JNum 1), (''scheme'', JStr (scheme upto_requirement)),
                  (''network'', JStr (network upto_requirement)),
                  (''payload'', authorization (maxAmountRequired upto_requirement) ''0x04'' 940 2000)]) \<and>
   lower_case example_runtime ''0xRECIPIENT''
     = lower_case example_runtime (payTo upto_requirement) \<and>
   1000000 div 1000 \<le> (2000::int) \<and>
   \<not> set_has (usedNonces fresh) (JStr ''0x04'') \<and>
   verifyEIP3009Signature example_runtime fresh
     (authorization (maxAmountRequired upto_requirement) ''0x04'' 940 2000) upto_requirement
     = (True, fresh) \<and>
   verify example_runtime fresh 1000000 ''upto'' upto_requirement
     = (invalid ''Unsupported payment scheme'', fresh)"
  by (simp add: model_defs example_defs)


subsection \<open>Failures and their reasons\<close>

lemma settle_cases:
  "success (fst (settle rt st t h r rand)) \<or>
   (\<exists>s. fst (verify rt st t h r) = invalid s \<and> fst (settle rt st t h r rand) = failure s)"
proof (cases "isValid (fst (verify rt st t h r))")
  case True
  from settle_valid[OF True, of rand] show ?thesis by blast
next
  case False
  from settle_invalid[OF False, of rand] show ?thesis by auto
qed

lemma invalid_inject: "invalid s = invalid s' \<Longrightarrow> s = s'"
  by (simp add: invalid_def)

lemma missing_version:
  assumes "decode_header rt h = Inr (JObj kvs)" "lookup kvs ''x402Version'' = JUndefined"
  shows "fst (verify rt st t h r) = invalid ''Unsupported x402 version''"
  using assms(2) by (simp add: verify_def verify_begin_def verify_try_object[OF assms(1)])

text \<open>
  C8, as the code has it. \<^verbatim>\<open>verify\<close> and \<^verbatim>\<open>settle\<close> return a response on every input:
  whatever is thrown inside is caught and becomes a reason. A verification is valid or
  carries one of the eight reasons the source spells out, or \<^verbatim>\<open>Verification failed: \<close>
  followed by the message of the error caught; a settlement succeeds or carries one of
  the same as its error. A header that does not parse gets the parser's message after
  that prefix. A parsed object without a version is not reported as malformed: the
  version check rejects it.
\<close>

theorem failures_are_results:
  "(fst (verify rt st t h r) = valid \<or>
      (\<exists>s. fst (verify rt st t h r) = invalid s \<and>
           (s \<in> set fixed_reasons \<or> (\<exists>e. s = ''Verification failed: '' @ message e)))) \<and>
   (success (fst (settle rt st t h r rand)) \<or>
      (\<exists>s. fst (settle rt st t h r rand) = failure s \<and>
           (s \<in> set fixed_reasons \<or> (\<exists>e. s = ''Verification failed: '' @ message e)))) \<and>
   (decode_header rt h = Inl e \<longrightarrow>
      fst (verify rt st t h r) = invalid (''Verification failed: '' @ message e)) \<and>
   (decode_header rt h = Inr (JObj kvs) \<and> lookup kvs ''x402Version'' = JUndefined \<longrightarrow>
      fst (verify rt st t h r) = invalid ''Unsupported x402 version'')"
proof -
  have v: "fst (verify rt st t h r) = valid \<or>
      (\<exists>s. fst (verify rt st t h r) = invalid s \<and>
           (s \<in> set fixed_reasons \<or> (\<exists>e. s = ''Verification failed: '' @ message e)))"
    using verify_cases[of rt st t h r] by blast
  have s: "success (fst (settle rt st t h r rand)) \<or>
      (\<exists>s. fst (settle rt st t h r rand) = failure s \<and>
           (s \<in> set fixed_reasons \<or> (\<exists>e. s = ''Verification failed: '' @ message e)))"
  proof (cases "success (fst (settle rt st t h r rand))")
    case True
    then show ?thesis by simp
  next
    case False
    with settle_cases[of rt st t h r rand] obtain s where
      s: "fst (verify rt st t h r) = invalid s" "fst (settle rt st t h r rand) = failure s"
      by blast
    from v s(1) have "s \<in> set fixed_reasons \<or> (\<exists>e. s = ''Verification failed: '' @ message e)"
      by (auto simp: valid_def invalid_def)
    with s(2) show ?thesis by blast
  qed
  have d: "decode_header rt h = Inl e \<longrightarrow>
      fst (verify rt st t h r) = invalid (''Verification failed: '' @ message e)"
    by (simp add: verify_decode_failure)
  have m: "decode_header rt h = Inr (JObj kvs) \<and> lookup kvs ''x402Version'' = JUndefined \<longrightarrow>
      fst (verify rt st t h r) = invalid ''Unsupported x402 version''"
    using missing_version by blast
  from v s d m show ?thesis by blast
qed

theorem failures_are_results_witness:
  "decode_header example_runtime ''nonsense'' = Inl (SyntaxError ''Unexpected end of JSON input'') \<and>
   fst (verify example_runtime fresh 1000000 ''nonsense'' example_requirement)
     = invalid ''Verification failed: Unexpected end of JSON input'' \<and>
   fst (settle example_runtime fresh 1000000 ''nonsense'' example_requirement (\<lambda>i. 7))
     = failure ''Verification failed: Unexpected end of JSON input'' \<and>
   decode_header example_runtime ''empty-object'' = Inr (JObj []) \<and>
   lookup [] ''x402Version'' = JUndefined \<and>
   fst (verify example_runtime fresh 1000000 ''empty-object'' example_requirement)
     = invalid ''Unsupported x402 version''"
proof -
  have d: "decode_header example_runtime ''nonsense''
             = Inl (SyntaxError ''Unexpected end of JSON input'')"
    "decode_header example_runtime ''empty-object'' = Inr (JObj [])"
    by (simp_all add: example_runtime_def example_headers_def)
  have l: "lookup [] ''x402Version'' = JUndefined" by (simp add: lookup_def)
  have f: "fst (settle example_runtime fresh 1000000 ''nonsense'' example_requirement (\<lambda>i. 7))
     = failure ''Verification failed: Unexpected end of JSON input''"
    by (simp add: model_defs example_defs)
  show ?thesis
    using failures_are_results[of example_runtime fresh 1000000 "''nonsense''"
            example_requirement "\<lambda>i. 7" "SyntaxError ''Unexpected end of JSON input''" "[]"]
          failures_are_results[of example_runtime fresh 1000000 "''empty-object''"
            example_requirement "\<lambda>i. 7" "SyntaxError []" "[]"]
          d l f
    by simp
qed

text \<open>
  Against the spec's taxonomy: the reason for an unsupported scheme stands for none of its
  entries; an object with every field missing is reported as an unsupported version, not
  as malformed; and what is caught carries the text of the error, which differs from one
  malformed header to the next.
\<close>

theorem reasons_outside_taxonomy_counterexample:
  "invalidReason (fst (verify example_runtime fresh 1000000 ''upto'' upto_requirement))
     = Some ''Unsupported payment scheme'' \<and>
   spec_reason_of ''Unsupported payment scheme'' = None \<and>
   decode_header example_runtime ''empty-object'' = Inr (JObj []) \<and>
   invalidReason (fst (verify example_runtime fresh 1000000 ''empty-object'' example_requirement))
     = Some ''Unsupported x402 version'' \<and>
   spec_reason_of ''Unsupported x402 version'' = Some UnsupportedVersion \<and>
   UnsupportedVersion \<noteq> Malformed \<and>
   invalidReason (fst (verify example_runtime fresh 1000000 ''no-payload'' example_requirement))
     = Some ''Verification failed: Cannot read properties of undefined (reading 'nonce')'' \<and>
   invalidReason (fst (verify example_runtime fresh 1000000 ''nonsense'' example_requirement))
     = Some ''Verification failed: Unexpected end of JSON input''"
  by (simp add: model_defs example_defs spec_reason_of_def quoted_def)


subsection \<open>Two calls of settle\<close>

text \<open>Three moves of a call with nothing in between are the awaited call.\<close>

lemma advance_thrice:
  "advance rt (snd (advance rt (snd (advance rt st (new_call h r t rand)))
                      (fst (advance rt st (new_call h r t rand)))))
              (fst (advance rt (snd (advance rt st (new_call h r t rand)))
                      (fst (advance rt st (new_call h r t rand)))))
   = ((new_call h r t rand)\<lparr>call_progress := Returned (fst (settle rt st t h r rand))\<rparr>,
      snd (settle rt st t h r rand))"
proof (cases "verify_begin rt st t h r")
  case (Pair vs st')
  show ?thesis
  proof (cases vs)
    case (Finished v)
    with Pair show ?thesis
      by (simp add: advance_def new_call_def settle_def verify_def case_prod_beta)
  next
    case (AwaitingSignature b)
    with Pair show ?thesis
      by (simp add: advance_def new_call_def settle_def verify_def case_prod_beta)
  qed
qed

lemma serial_schedule:
  "run_schedule rt (st, [new_call h1 r1 t1 rand1, new_call h2 r2 t2 rand2]) [0, 0, 0, 1, 1, 1]
   = (snd (settle rt (snd (settle rt st t1 h1 r1 rand1)) t2 h2 r2 rand2),
      [(new_call h1 r1 t1 rand1)\<lparr>call_progress := Returned (fst (settle rt st t1 h1 r1 rand1))\<rparr>,
       (new_call h2 r2 t2 rand2)\<lparr>call_progress :=
          Returned (fst (settle rt (snd (settle rt st t1 h1 r1 rand1)) t2 h2 r2 rand2))\<rparr>])"
  using advance_thrice[of rt st h1 r1 t1 rand1]
        advance_thrice[of rt "snd (settle rt st t1 h1 r1 rand1)" h2 r2 t2 rand2]
  by (simp add: run_schedule_def move_def case_prod_beta)


text \<open>
  C4, as the code has it. Of two calls of \<^verbatim>\<open>settle\<close> whose headers carry the same nonce,
  the second made once the first has returned, both return and not both succeed: when
  the first succeeds the second fails, with \<^verbatim>\<open>Nonce already used\<close> for its error when its
  header gets as far as the nonce lookup.
\<close>

theorem settles_in_turn:
  assumes "header_nonce rt h1 = Some (JStr n)"
    and "header_nonce rt h2 = Some (JStr n)"
  shows "\<exists>x y.
     outcomes (run_schedule rt (st, [new_call h1 r1 t1 rand1, new_call h2 r2 t2 rand2])
                 [0, 0, 0, 1, 1, 1]) = [Returned x, Returned y] \<and>
     \<not> (success x \<and> success y) \<and>
     (success x \<and> reaches_nonce_check rt h2 r2 \<longrightarrow> y = failure ''Nonce already used'')"
proof -
  let ?x = "fst (settle rt st t1 h1 r1 rand1)"
  let ?st1 = "snd (settle rt st t1 h1 r1 rand1)"
  let ?y = "fst (settle rt ?st1 t2 h2 r2 rand2)"
  have o: "outcomes (run_schedule rt (st, [new_call h1 r1 t1 rand1, new_call h2 r2 t2 rand2])
                 [0, 0, 0, 1, 1, 1]) = [Returned ?x, Returned ?y]"
    unfolding outcomes_def serial_schedule by simp
  have second: "\<not> success ?y \<and> (reaches_nonce_check rt h2 r2 \<longrightarrow> ?y = failure ''Nonce already used'')"
    if sx: "success ?x"
  proof -
    from sx assms(1) have "JStr n \<in> set (usedNonces ?st1)" by (rule settle_success_consumes)
    then have used: "set_has (usedNonces ?st1) (JStr n)" by (simp add: set_has_def)
    have nv: "\<not> isValid (fst (verify rt ?st1 t2 h2 r2))"
      using assms(2) used by (rule consumed_never_valid)
    from settle_invalid[OF nv, of rand2] obtain s where
      s: "fst (verify rt ?st1 t2 h2 r2) = invalid s" "?y = failure s" by auto
    have "s = ''Nonce already used''" if "reaches_nonce_check rt h2 r2"
      using consumed_reason[OF that assms(2) used, of t2] s(1) by (simp add: invalid_def)
    with s(2) show ?thesis by (auto simp: failure_def)
  qed
  from o second show ?thesis by blast
qed

theorem settles_in_turn_witness:
  "header_nonce example_runtime ''paid'' = Some (JStr ''0x01'') \<and>
   reaches_nonce_check example_runtime ''paid'' example_requirement \<and>
   map succeeded
     (outcomes (run_schedule example_runtime
        (fresh, [new_call ''paid'' example_requirement 1000000 (\<lambda>i. 1),
                 new_call ''paid'' example_requirement 1000000 (\<lambda>i. 2)])
        [0, 0, 0, 1, 1, 1])) = [True, False] \<and>
   outcomes (run_schedule example_runtime
        (fresh, [new_call ''paid'' example_requirement 1000000 (\<lambda>i. 1),
                 new_call ''paid'' example_requirement 1000000 (\<lambda>i. 2)])
        [0, 0, 0, 1, 1, 1]) ! 1 = Returned (failure ''Nonce already used'')"
proof -
  have n: "header_nonce example_runtime ''paid'' = Some (JStr ''0x01'')"
    by (simp add: header_nonce_def lookup_def example_defs)
  have g: "reaches_nonce_check example_runtime ''paid'' example_requirement"
    by (simp add: reaches_nonce_check_def read_def lookup_def example_defs)
  have x: "success (fst (settle example_runtime fresh 1000000 ''paid'' example_requirement (\<lambda>i. 1)))"
    by (simp add: model_defs example_defs)
  from settles_in_turn[OF n n, of fresh example_requirement 1000000 "\<lambda>i. 1"
      example_requirement 1000000 "\<lambda>i. 2"]
  obtain a b where ab:
    "outcomes (run_schedule example_runtime
        (fresh, [new_call ''paid'' example_requirement 1000000 (\<lambda>i. 1),
                 new_call ''paid'' example_requirement 1000000 (\<lambda>i. 2)])
        [0, 0, 0, 1, 1, 1]) = [Returned a, Returned b]"
    "\<not> (success a \<and> success b)"
    "success a \<and> reaches_nonce_check example_runtime ''paid'' example_requirement
       \<longrightarrow> b = failure ''Nonce already used''"
    by blast
  from ab(1) have "a = fst (settle example_runtime fresh 1000000 ''paid'' example_requirement (\<lambda>i. 1))"
    unfolding outcomes_def serial_schedule by simp
  with x have "success a" by simp
  with ab g have "b = failure ''Nonce already used''" "\<not> success b" by simp_all
  with ab(1) \<open>success a\<close> n g show ?thesis by simp
qed

text \<open>
  There is no lock, and the nonce is looked up in the first move of a call and added in
  its last. Two calls for the same payment that are both made before either is resumed,
  which is the schedule of \<^verbatim>\<open>Promise.all([f.settle(h, r), f.settle(h, r)])\<close>, both find
  the nonce unused and both succeed.
\<close>

theorem overlapping_settles_counterexample:
  "header_nonce example_runtime ''paid'' = Some (JStr ''0x01'') \<and>
   map succeeded
     (outcomes (run_schedule example_runtime
        (fresh, [new_call ''paid'' example_requirement 1000000 (\<lambda>i. 1),
                 new_call ''paid'' example_requirement 1000000 (\<lambda>i. 2)])
        [0, 1, 0, 1, 0, 1])) = [True, True]"
  by (simp add: run_schedule_def move_def advance_def new_call_def outcomes_def
      header_nonce_def model_defs example_defs)

subsection \<open>The chain id and the transaction hash\<close>

lemma hex_digit_hex: "hex_digit d \<in> set ''0123456789abcdef''"
  unfolding hex_digit_def by (rule nth_mem) simp

text \<open>
  C9. The table is an object literal, and \<^verbatim>\<open>constructor\<close> is not one of its keys; yet
  \<^verbatim>\<open>chainIds['constructor']\<close> is the function every object inherits, which is truthy, so
  \<^verbatim>\<open>getChainId\<close> returns it and not the fallback 1.
\<close>

theorem getChainId_inherited_member:
  "map_of chainIds ''constructor'' = None \<and>
   getChainId ''constructor'' = InheritedMember ''constructor'' \<and>
   getChainId ''constructor'' \<noteq> ChainNumber 1"
  by (simp add: getChainId_def chainIds_def object_prototype_members_def)

text \<open>
  The four networks of the table get their chain ids, and every other network whose name
  is not that of a member of \<^verbatim>\<open>Object.prototype\<close> gets 1: its signing domain is the one
  of \<^verbatim>\<open>ethereum\<close>, and nothing is rejected for the network being unknown.
\<close>

theorem getChainId_table:
  "getChainId ''base-sepolia'' = ChainNumber 84532 \<and>
   getChainId ''base'' = ChainNumber 8453 \<and>
   getChainId ''ethereum'' = ChainNumber 1 \<and>
   getChainId ''sepolia'' = ChainNumber 11155111 \<and>
   (map_of chainIds nw = None \<and> nw \<notin> set object_prototype_members \<longrightarrow>
      getChainId nw = ChainNumber 1 \<and>
      build_domain (r\<lparr>network := nw\<rparr>) = build_domain (r\<lparr>network := ''ethereum''\<rparr>))"
  by (simp add: getChainId_def chainIds_def build_domain_def)

theorem getChainId_table_witness:
  "map_of chainIds ''polygon'' = None \<and> ''polygon'' \<notin> set object_prototype_members \<and>
   getChainId ''polygon'' = ChainNumber 1 \<and>
   chainId (build_domain (example_requirement\<lparr>network := ''polygon''\<rparr>)) = ChainNumber 1"
  using getChainId_table[of "''polygon''" example_requirement]
  by (simp add: chainIds_def object_prototype_members_def build_domain_def)

text \<open>A settlement that succeeds carries a transaction hash: \<^verbatim>\<open>0x\<close> and 64
  hexadecimal digits.\<close>

theorem settle_tx_hash:
  assumes "success (fst (settle rt st t h r rand))"
  shows "\<exists>tx. txHash (fst (settle rt st t h r rand)) = Some tx \<and> length tx = 66 \<and>
           take 2 tx = ''0x'' \<and> set (drop 2 tx) \<subseteq> set ''0123456789abcdef''"
proof -
  have v: "isValid (fst (verify rt st t h r))"
  proof (rule ccontr)
    assume "\<not> isValid (fst (verify rt st t h r))"
    from settle_invalid[OF this, of rand] assms show False by (auto simp: failure_def)
  qed
  from verify_valid_D[OF v] obtain n where n: "header_nonce rt h = Some n" by blast
  then have "txHash (fst (settle rt st t h r rand)) = Some (fake_tx_hash rand)"
    using v
    by (auto simp: settle_def settle_resume_def settle_try_def header_nonce_def case_prod_beta
        Let_def split: sum.splits)
  moreover have "length (fake_tx_hash rand) = 66" by (simp add: fake_tx_hash_def)
  moreover have "take 2 (fake_tx_hash rand) = ''0x''" by (simp add: fake_tx_hash_def)
  moreover have "set (drop 2 (fake_tx_hash rand)) \<subseteq> set ''0123456789abcdef''"
    using hex_digit_hex by (auto simp: fake_tx_hash_def simp del: set_simps)
  ultimately show ?thesis by blast
qed

theorem settle_tx_hash_witness:
  "success (fst (settle example_runtime fresh 1000000 ''paid'' example_requirement (\<lambda>i. 10))) \<and>
   txHash (fst (settle example_runtime fresh 1000000 ''paid'' example_requirement (\<lambda>i. 10)))
     = Some (''0x'' @ replicate 64 (CHR ''a''))"
proof -
  have a: "success (fst (settle example_runtime fresh 1000000 ''paid'' example_requirement (\<lambda>i. 10)))"
    by (simp add: model_defs example_defs)
  have b: "fake_tx_hash (\<lambda>i. 10) = ''0x'' @ replicate 64 (CHR ''a'')"
    by (simp add: fake_tx_hash_def hex_digit_def map_replicate_const)
  have c: "txHash (fst (settle example_runtime fresh 1000000 ''paid'' example_requirement (\<lambda>i. 10)))
     = Some (fake_tx_hash (\<lambda>i. 10))"
    by (simp add: model_defs example_defs)
  from settle_tx_hash[OF a] a b c show ?thesis by simp
qed


subsection \<open>Overlapping calls for a valid payment\<close>

lemma verify_valid_begin:
  assumes "isValid (fst (verify rt st t h r))"
  shows "fst (verify_begin rt st t h r) = AwaitingSignature True"
  using verify_begin_cases[of rt st t h r] assms
  by (auto simp: verify_def case_prod_beta invalid_def split: if_splits)

text \<open>
  Whenever a payment verifies, two calls of \<^verbatim>\<open>settle\<close> for it that are both made before
  either is resumed both succeed: each has looked the nonce up before the other adds it.
\<close>

theorem overlapping_settles_both_succeed:
  assumes "isValid (fst (verify rt st t h r))"
  shows "map succeeded
           (outcomes (run_schedule rt (st, [new_call h r t rand1, new_call h r t rand2])
                        [0, 1, 0, 1, 0, 1])) = [True, True]"
proof -
  obtain st1 where b1: "verify_begin rt st t h r = (AwaitingSignature True, st1)"
    using verify_valid_begin[OF assms] by (cases "verify_begin rt st t h r") simp
  have u1: "usedNonces st1 = usedNonces st"
    using verify_begin_used[of rt st t h r] b1 by simp
  have "fst (verify_begin rt st1 t h r) = AwaitingSignature True"
    using verify_begin_cong[OF u1, of rt t h r] b1 by simp
  then obtain st2 where b2: "verify_begin rt st1 t h r = (AwaitingSignature True, st2)"
    by (cases "verify_begin rt st1 t h r") simp
  from verify_valid_D[OF assms] obtain n where n: "header_nonce rt h = Some n" by blast
  from settle_try_commit[OF n, of st2 rand1] obtain res1 st3 where
    c1: "settle_try rt st2 h rand1 = Inr (res1, st3)" "success res1" by blast
  from settle_try_commit[OF n, of st3 rand2] obtain res2 st4 where
    c2: "settle_try rt st3 h rand2 = Inr (res2, st4)" "success res2" by blast
  show ?thesis
    using b1 b2 c1 c2
    by (simp add: run_schedule_def move_def advance_def new_call_def outcomes_def
        settle_resume_def valid_def)
qed

theorem overlapping_settles_both_succeed_witness:
  "isValid (fst (verify example_runtime fresh 1000000 ''paid'' example_requirement)) \<and>
   map succeeded
     (outcomes (run_schedule example_runtime
        (fresh, [new_call ''paid'' example_requirement 1000000 (\<lambda>i. 3),
                 new_call ''paid'' example_requirement 1000000 (\<lambda>i. 4)])
        [0, 1, 0, 1, 0, 1])) = [True, True]"
proof -
  have v: "isValid (fst (verify example_runtime fresh 1000000 ''paid'' example_requirement))"
    by (simp add: model_defs example_defs)
  from overlapping_settles_both_succeed[OF v, of "\<lambda>i. 3" "\<lambda>i. 4"] v show ?thesis by simp
qed


end
